theory Spec2Isabelle
  imports Main
begin

section \<open>Python strings\<close>

text \<open>
  The line buffer of an \<open>XYZFile\<close> is a Python list of \<open>str\<close>. A line is modelled as a
  \<open>string\<close> whose characters are the code points 0 to 255; the predicates below are
  Python's \<open>str.isspace\<close> and \<open>str.isdigit\<close> on that range (the digits include the
  superscripts U+00B2, U+00B3 and U+00B9, which \<open>int()\<close> does not accept).
\<close>

definition py_isspace :: "char \<Rightarrow> bool" where
  "py_isspace c =
     (let n = (of_char c :: nat)
      in (9 \<le> n \<and> n \<le> 13) \<or> (28 \<le> n \<and> n \<le> 32) \<or> n = 133 \<or> n = 160)"

definition ascii_digit :: "char \<Rightarrow> bool" where
  "ascii_digit c = (let n = (of_char c :: nat) in 48 \<le> n \<and> n \<le> 57)"

definition py_isdigit_char :: "char \<Rightarrow> bool" where
  "py_isdigit_char c =
     (let n = (of_char c :: nat) in ascii_digit c \<or> n = 178 \<or> n = 179 \<or> n = 185)"

text \<open>\<open>s.strip()\<close>: leading and trailing whitespace removed.\<close>

definition py_strip :: "string \<Rightarrow> string" where
  "py_strip s = rev (dropWhile py_isspace (rev (dropWhile py_isspace s)))"

text \<open>\<open>s.strip(" ")\<close>: leading and trailing blanks removed.\<close>

definition py_strip_blank :: "string \<Rightarrow> string" where
  "py_strip_blank s =
     rev (dropWhile (\<lambda>c. c = CHR '' '') (rev (dropWhile (\<lambda>c. c = CHR '' '') s)))"

text \<open>\<open>s.isdigit()\<close>: at least one character, and every character a digit.\<close>

definition py_isdigit :: "string \<Rightarrow> bool" where
  "py_isdigit s = (s \<noteq> [] \<and> list_all py_isdigit_char s)"

text \<open>\<open>s.split()\<close>: the maximal runs of non-whitespace characters.\<close>

fun py_split :: "string \<Rightarrow> string list" where
  "py_split [] = []"
| "py_split (c # cs) =
     (if py_isspace c then py_split cs
      else (case cs of
              [] \<Rightarrow> [[c]]
            | d # _ \<Rightarrow>
                if py_isspace d then [c] # py_split cs
                else (case py_split cs of [] \<Rightarrow> [[c]] | t # ts \<Rightarrow> (c # t) # ts)))"

text \<open>\<open>s.split(sep)\<close> for a one-character separator: empty fields are kept.\<close>

fun py_split_sep :: "char \<Rightarrow> string \<Rightarrow> string list" where
  "py_split_sep sep [] = [[]]"
| "py_split_sep sep (c # cs) =
     (if c = sep then [] # py_split_sep sep cs
      else (case py_split_sep sep cs of [] \<Rightarrow> [[c]] | t # ts \<Rightarrow> (c # t) # ts))"

text \<open>\<open>str(n)\<close> for a non-negative integer, and \<open>str(i)\<close> for any integer.\<close>

definition digit_char :: "nat \<Rightarrow> char" where
  "digit_char d = char_of (48 + d)"

fun str_nat :: "nat \<Rightarrow> string" where
  "str_nat n = (if n < 10 then [digit_char n] else str_nat (n div 10) @ [digit_char (n mod 10)])"

declare str_nat.simps [simp del]

definition str_int :: "int \<Rightarrow> string" where
  "str_int i = (if i < 0 then CHR ''-'' # str_nat (nat (- i)) else str_nat (nat i))"

text \<open>
  \<open>int(s)\<close> in base 10: surrounding whitespace is dropped, one sign is allowed, and the
  digits may be grouped by single underscores. \<open>None\<close> is the \<open>ValueError\<close>. (The
  interpreter's limit on the number of digits of a literal is not modelled.) The
  whitespace that \<open>int()\<close> and \<open>float()\<close> drop is narrower than that of
  \<open>str.strip()\<close>: the separators U+001C to U+001F are not part of it, so
  \<open>int()\<close> of U+001F followed by the digit 5 raises.
\<close>

definition num_isspace :: "char \<Rightarrow> bool" where
  "num_isspace c =
     (let n = (of_char c :: nat)
      in (9 \<le> n \<and> n \<le> 13) \<or> n = 32 \<or> n = 133 \<or> n = 160)"

definition num_strip :: "string \<Rightarrow> string" where
  "num_strip s = rev (dropWhile num_isspace (rev (dropWhile num_isspace s)))"

definition digit_val :: "char \<Rightarrow> int" where
  "digit_val c = of_char c - 48"

definition digits_value :: "string \<Rightarrow> int" where
  "digits_value s = foldl (\<lambda>a c. 10 * a + digit_val c) 0 s"

fun no_double_underscore :: "string \<Rightarrow> bool" where
  "no_double_underscore (a # b # cs) =
     (\<not> (a = CHR ''_'' \<and> b = CHR ''_'') \<and> no_double_underscore (b # cs))"
| "no_double_underscore _ = True"

definition valid_int_body :: "string \<Rightarrow> bool" where
  "valid_int_body b =
     (b \<noteq> [] \<and> ascii_digit (hd b) \<and> ascii_digit (last b)
      \<and> list_all (\<lambda>c. ascii_digit c \<or> c = CHR ''_'') b \<and> no_double_underscore b)"

definition py_int :: "string \<Rightarrow> int option" where
  "py_int s =
     (let t = num_strip s;
          neg = (t \<noteq> [] \<and> hd t = CHR ''-'');
          body = (if t \<noteq> [] \<and> (hd t = CHR ''-'' \<or> hd t = CHR ''+'') then tl t else t)
      in if valid_int_body body
         then Some ((if neg then - 1 else 1) * digits_value (filter (\<lambda>c. c \<noteq> CHR ''_'') body))
         else None)"

text \<open>
  \<open>xs[i]\<close> for a Python list: a negative index counts from the end, and an index out
  of range raises \<open>IndexError\<close> (here \<open>None\<close>).
\<close>

definition py_index :: "'a list \<Rightarrow> int \<Rightarrow> 'a option" where
  "py_index xs i =
     (let n = int (length xs); j = (if i < 0 then n + i else i)
      in if 0 \<le> j \<and> j < n then Some (xs ! nat j) else None)"

text \<open>\<open>xs[i:j]\<close> for a Python list, with negative bounds counted from the end.\<close>

definition py_slice :: "'a list \<Rightarrow> int \<Rightarrow> int \<Rightarrow> 'a list" where
  "py_slice xs i j =
     (let n = int (length xs);
          lo = (if i < 0 then max 0 (n + i) else min i n);
          hi = (if j < 0 then max 0 (n + j) else min j n)
      in take (nat hi - nat lo) (drop (nat lo) xs))"

section \<open>The file object\<close>

text \<open>
  An atom as the parser fills it in: the element label and the coordinate triple. The
  type \<open>'c\<close> is the floating-point type of a coordinate.
\<close>

record 'c atom =
  element :: string
  coord :: "'c \<times> 'c \<times> 'c"

text \<open>
  \<open>AtomArray\<close> is a sequence of atoms; \<open>AtomArrayStack\<close> is a sequence of models.
  The argument of \<open>set_structure\<close> and the result of \<open>get_structure\<close> are one or the
  other.
\<close>

datatype 'c atom_struct = AtomArray "'c atom list" | AtomArrayStack "'c atom list list"

text \<open>
  The fields of \<open>XYZFile\<close>: the line buffer and the four caches, each \<open>None\<close> until it
  is first computed.
\<close>

record 'c xyzfile =
  lines :: "string list"
  mol_names :: "string list option"
  atom_numbers :: "int list option"
  model_start_inds :: "nat list option"
  structures :: "'c atom list list option"

definition N_HEADER :: nat where
  "N_HEADER = 2"

text \<open>\<open>XYZFile.__init__\<close>: two empty header lines and empty caches.\<close>

definition new_xyzfile :: "'c xyzfile" where
  "new_xyzfile =
     \<lparr>lines = replicate N_HEADER [], mol_names = None, atom_numbers = None,
      model_start_inds = None, structures = None\<rparr>"

text \<open>
  Modelled from the spec: the reader of the base class \<open>TextFile\<close> is not part of the
  sources at hand; a line buffer "created from external file content" is a newly
  constructed object whose \<open>lines\<close> are replaced by the lines read.
\<close>

definition file_of_lines :: "string list \<Rightarrow> 'c xyzfile" where
  "file_of_lines ls = new_xyzfile\<lparr>lines := ls\<rparr>"

section \<open>Model boundaries\<close>

text \<open>The first scan of \<open>__update_start_lines\<close>: the indices of the all-digit lines.\<close>

definition start_candidates :: "string list \<Rightarrow> nat list" where
  "start_candidates ls = filter (\<lambda>i. py_isdigit (py_strip (ls ! i))) [0..<length ls]"

text \<open>
  The purge: position 0 is kept, and position \<open>k + 1\<close> is kept when
  \<open>inds[k] - inds[k+1] \<noteq> -1\<close>.
\<close>

definition purge_adjacent :: "nat list \<Rightarrow> nat list" where
  "purge_adjacent inds =
     map (\<lambda>k. inds ! k)
       (0 # map Suc
          (filter (\<lambda>k. int (inds ! k) - int (inds ! Suc k) \<noteq> - 1) [0..<length inds - 1]))"

definition start_lines :: "string list \<Rightarrow> nat list" where
  "start_lines ls =
     (let inds = start_candidates ls
      in if length inds > 1 then purge_adjacent inds
         else if length inds = 2 then take 1 inds
         else inds)"

definition update_start_lines :: "'c xyzfile \<Rightarrow> 'c xyzfile" where
  "update_start_lines f = f\<lparr>model_start_inds := Some (start_lines (lines f))\<rparr>"

section \<open>Counting atoms and models\<close>

text \<open>
  \<open>__get_number_of_atoms\<close> returns a one-element list holding an integer for a
  single-model buffer, and otherwise the texts of the count lines.
\<close>

datatype num_atoms = CountedLines int | CountLineTexts "string list"

definition non_body_inds :: "string list \<Rightarrow> nat list" where
  "non_body_inds ls = filter (\<lambda>i. length (py_split (ls ! i)) \<noteq> 4) [0..<length ls]"

definition get_number_of_atoms :: "string list \<Rightarrow> num_atoms" where
  "get_number_of_atoms ls =
     (let inds = non_body_inds ls
      in if length inds \<le> 2 then CountedLines (int (length (drop 2 ls)))
         else (let num_atoms = length inds div 2
               in CountLineTexts (map (\<lambda>i. ls ! (inds ! (2 * i))) [0..<num_atoms])))"

fun len_num_atoms :: "num_atoms \<Rightarrow> nat" where
  "len_num_atoms (CountedLines n) = 1"
| "len_num_atoms (CountLineTexts ts) = length ts"

definition get_model_count :: "'c xyzfile \<Rightarrow> nat" where
  "get_model_count f = len_num_atoms (get_number_of_atoms (lines f))"

section \<open>Errors\<close>

text \<open>
  Every exception the methods can raise, with the data its message reports:
  \<^item> \<open>IndexError\<close>: a list index out of range;
  \<^item> \<open>IntValueError\<close>, \<open>FloatValueError\<close>: \<open>int()\<close> or \<open>float()\<close> of a text that is no literal;
  \<^item> \<open>HeaderModelError m M\<close>: "Tried to get header of model [m]. But has only M many models.";
  \<^item> \<open>SetHeaderModelError m M\<close>: "Specified model value [m] is not compatible with number
    of models [M]";
  \<^item> \<open>SetHeaderEmptyError\<close>: "Can not set header of an empty XYZFile ...";
  \<^item> \<open>GetStructureEmptyError\<close>: "Trying to get_structure from empty XYZFile";
  \<^item> \<open>AtomCountError n k cut\<close>: "Number of Atoms not matching with coordinate lines" with
    the atom number \<open>n\<close>, the length \<open>k\<close> of the lines cut out and the lines themselves;
  \<^item> \<open>NaNCoordError x y z\<close>: "At least one of the coordinates is NaN" with the triple;
  \<^item> \<open>NegativeLengthError\<close>: an \<open>AtomArray\<close> of negative length was asked for;
  \<^item> \<open>StackError\<close>: the models cannot be stacked.
\<close>

datatype 'c error =
    IndexError
  | IntValueError string
  | FloatValueError string
  | HeaderModelError int nat
  | SetHeaderModelError int nat
  | SetHeaderEmptyError
  | GetStructureEmptyError
  | AtomCountError int nat "string list"
  | NaNCoordError 'c 'c 'c
  | NegativeLengthError int
  | StackError

text \<open>A list comprehension whose body can raise: the first exception ends it.\<close>

fun map_result :: "('a \<Rightarrow> 'e + 'b) \<Rightarrow> 'a list \<Rightarrow> 'e + 'b list" where
  "map_result g [] = Inr []"
| "map_result g (x # xs) =
     (case g x of
        Inl e \<Rightarrow> Inl e
      | Inr y \<Rightarrow> (case map_result g xs of Inl e \<Rightarrow> Inl e | Inr ys \<Rightarrow> Inr (y # ys)))"

text \<open>\<open>xs[i] = v\<close> for a Python list; \<open>None\<close> is the \<open>IndexError\<close>.\<close>

definition py_setitem :: "'a list \<Rightarrow> int \<Rightarrow> 'a \<Rightarrow> 'a list option" where
  "py_setitem xs i v =
     (let n = int (length xs); j = (if i < 0 then n + i else i)
      in if 0 \<le> j \<and> j < n then Some (xs[nat j := v]) else None)"

section \<open>The header\<close>

text \<open>
  \<open>get_header\<close> returns a pair of an atom number and a name, or a pair of lists.
\<close>

datatype header = Header int string | Headers "int list" "string list"

text \<open>The boundaries just stored by \<open>__update_start_lines\<close>.\<close>

definition start_inds :: "'c xyzfile \<Rightarrow> nat list" where
  "start_inds f = (case model_start_inds f of None \<Rightarrow> [] | Some inds \<Rightarrow> inds)"

text \<open>\<open>int(self.lines[i].strip().strip(" "))\<close> and \<open>self.lines[i+1].strip()\<close>.\<close>

definition read_count :: "string list \<Rightarrow> nat \<Rightarrow> 'c error + int" where
  "read_count ls i =
     (case py_index ls (int i) of
        None \<Rightarrow> Inl IndexError
      | Some l \<Rightarrow>
          (case py_int (py_strip_blank (py_strip l)) of
             None \<Rightarrow> Inl (IntValueError (py_strip_blank (py_strip l)))
           | Some n \<Rightarrow> Inr n))"

definition read_name :: "string list \<Rightarrow> nat \<Rightarrow> 'c error + string" where
  "read_name ls i =
     (case py_index ls (int i + 1) of
        None \<Rightarrow> Inl IndexError
      | Some l \<Rightarrow> Inr (py_strip l))"

text \<open>
  The two guarded comprehensions "parse all atom_numbers into integers" and "parse all
  lines containing names", which fill a cache only when it is still \<open>None\<close>.
\<close>

definition load_atom_numbers :: "'c xyzfile \<Rightarrow> 'c error + 'c xyzfile" where
  "load_atom_numbers f =
     (case atom_numbers f of
        Some _ \<Rightarrow> Inr f
      | None \<Rightarrow>
          (case map_result (read_count (lines f)) (start_inds f) of
             Inl e \<Rightarrow> Inl e
           | Inr a \<Rightarrow> Inr (f\<lparr>atom_numbers := Some a\<rparr>)))"

definition load_mol_names :: "'c xyzfile \<Rightarrow> 'c error + 'c xyzfile" where
  "load_mol_names f =
     (case mol_names f of
        Some _ \<Rightarrow> Inr f
      | None \<Rightarrow>
          (case map_result (read_name (lines f)) (start_inds f) of
             Inl e \<Rightarrow> Inl e
           | Inr m \<Rightarrow> Inr (f\<lparr>mol_names := Some m\<rparr>)))"

text \<open>The last statement of \<open>get_header\<close>, on the two caches.\<close>

definition select_header :: "int option \<Rightarrow> int list \<Rightarrow> string list \<Rightarrow> 'c error + header" where
  "select_header model a m =
     (case model of
        Some k \<Rightarrow>
          if k > int (length a) then Inl (HeaderModelError k (length a))
          else (case py_index a k of
                  None \<Rightarrow> Inl IndexError
                | Some n \<Rightarrow>
                    (case py_index m k of None \<Rightarrow> Inl IndexError | Some nm \<Rightarrow> Inr (Header n nm)))
      | None \<Rightarrow>
          if length a = 1
          then (case py_index a 0 of
                  None \<Rightarrow> Inl IndexError
                | Some n \<Rightarrow>
                    (case py_index m 0 of None \<Rightarrow> Inl IndexError | Some nm \<Rightarrow> Inr (Header n nm)))
          else Inr (Headers a m))"

text \<open>
  A method returns its result or the exception it raised, together with the object as
  the call leaves it.
\<close>

definition cached :: "'a list option \<Rightarrow> 'a list" where
  "cached c = (case c of None \<Rightarrow> [] | Some xs \<Rightarrow> xs)"

definition get_header :: "int option \<Rightarrow> 'c xyzfile \<Rightarrow> ('c error + header) \<times> 'c xyzfile" where
  "get_header model f0 =
     (let f1 = update_start_lines f0
      in case load_atom_numbers f1 of
           Inl e \<Rightarrow> (Inl e, f1)
         | Inr f2 \<Rightarrow>
             (case load_mol_names f2 of
                Inl e \<Rightarrow> (Inl e, f2)
              | Inr f3 \<Rightarrow>
                  (select_header model (cached (atom_numbers f3)) (cached (mol_names f3)), f3)))"

text \<open>
  \<open>set_header\<close>. With a model index only that name in the cache changes; without one
  the two header lines are rewritten for a single model.
\<close>

definition first_count_text :: "num_atoms \<Rightarrow> string option" where
  "first_count_text c =
     (case c of CountedLines n \<Rightarrow> Some (str_int n) | CountLineTexts ts \<Rightarrow> py_index ts 0)"

definition set_header_single :: "string \<Rightarrow> 'c xyzfile \<Rightarrow> ('c error + unit) \<times> 'c xyzfile" where
  "set_header_single mol_name f =
     (let f1 = f\<lparr>lines := (lines f)[1 := mol_name]\<rparr>
      in case first_count_text (get_number_of_atoms (lines f1)) of
           None \<Rightarrow> (Inl IndexError, f1)
         | Some t \<Rightarrow>
             (let f2 = f1\<lparr>lines := (lines f1)[0 := t], mol_names := Some [mol_name]\<rparr>
              in case py_int t of
                   None \<Rightarrow> (Inl (IntValueError t), f2)
                 | Some n \<Rightarrow> (Inr (), update_start_lines (f2\<lparr>atom_numbers := Some [n]\<rparr>))))"

definition set_header_body ::
    "string \<Rightarrow> int option \<Rightarrow> 'c xyzfile \<Rightarrow> ('c error + unit) \<times> 'c xyzfile" where
  "set_header_body mol_name model f =
     (case model of
        Some k \<Rightarrow>
          if int (length (cached (mol_names f))) > k
          then (case py_setitem (cached (mol_names f)) k mol_name of
                  None \<Rightarrow> (Inl IndexError, f)
                | Some m \<Rightarrow> (Inr (), f\<lparr>mol_names := Some m\<rparr>))
          else (Inl (SetHeaderModelError k (get_model_count f)), f)
      | None \<Rightarrow>
          if length (lines f) > 2 then set_header_single mol_name f
          else (Inl SetHeaderEmptyError, f))"

definition set_header ::
    "string \<Rightarrow> int option \<Rightarrow> 'c xyzfile \<Rightarrow> ('c error + unit) \<times> 'c xyzfile" where
  "set_header mol_name model f0 =
     (case mol_names f0 of
        None \<Rightarrow>
          (case get_header None f0 of
             (Inl e, f1) \<Rightarrow> (Inl e, f1)
           | (Inr _, f1) \<Rightarrow> set_header_body mol_name model f1)
      | Some _ \<Rightarrow> set_header_body mol_name model f0)"

section \<open>Reading a structure\<close>

text \<open>
  Python's \<open>float()\<close>, \<open>numpy.isnan\<close> and the format specification \<open>.6f\<close> belong to
  the language and its libraries, not to the sources at hand. The methods take them as
  parameters: \<open>pfloat\<close> reads a token (\<open>None\<close> is the \<open>ValueError\<close>), \<open>isnan\<close> tests a
  coordinate, and \<open>fmt6\<close> renders one with six decimal places.

  One body line: the non-empty fields between blanks; fields 1 to 3 are read as
  numbers in turn, then the three are tested, then field 0 becomes the element.
\<close>

definition line_fields :: "string \<Rightarrow> string list" where
  "line_fields line = filter (\<lambda>x. x \<noteq> []) (py_split_sep CHR '' '' (py_strip line))"

definition read_float :: "(string \<Rightarrow> 'c option) \<Rightarrow> string list \<Rightarrow> int \<Rightarrow> 'c error + 'c" where
  "read_float pfloat toks i =
     (case py_index toks i of
        None \<Rightarrow> Inl IndexError
      | Some t \<Rightarrow> (case pfloat t of None \<Rightarrow> Inl (FloatValueError t) | Some v \<Rightarrow> Inr v))"

definition parse_atom_line ::
    "(string \<Rightarrow> 'c option) \<Rightarrow> ('c \<Rightarrow> bool) \<Rightarrow> string \<Rightarrow> 'c error + 'c atom" where
  "parse_atom_line pfloat isnan line =
     (let line_parsed = line_fields line
      in case read_float pfloat line_parsed 1 of
           Inl e \<Rightarrow> Inl e
         | Inr x \<Rightarrow>
        (case read_float pfloat line_parsed 2 of
           Inl e \<Rightarrow> Inl e
         | Inr y \<Rightarrow>
        (case read_float pfloat line_parsed 3 of
           Inl e \<Rightarrow> Inl e
         | Inr z \<Rightarrow>
             if isnan x \<or> isnan y \<or> isnan z then Inl (NaNCoordError x y z)
             else (case py_index line_parsed 0 of
                     None \<Rightarrow> Inl IndexError
                   | Some el \<Rightarrow> Inr \<lparr>element = el, coord = (x, y, z)\<rparr>))))"

text \<open>
  One pass of the loop over the boundaries: the lines of the model are cut out, an
  array of the declared length is made, the length of the cut is compared, and the body
  lines are read in order.
\<close>

definition parse_model ::
    "(string \<Rightarrow> 'c option) \<Rightarrow> ('c \<Rightarrow> bool) \<Rightarrow> string list \<Rightarrow> int list \<Rightarrow> nat \<times> nat
       \<Rightarrow> 'c error + 'c atom list" where
  "parse_model pfloat isnan ls nums p =
     (case p of (i, ind) \<Rightarrow>
        (case py_index nums (int i) of
           None \<Rightarrow> Inl IndexError
         | Some n \<Rightarrow>
             (let ind_end = int ind + 2 + n;
                  lines_cut = py_slice ls (int ind) ind_end
              in if n < 0 then Inl (NegativeLengthError n)
                 else if n + 2 \<noteq> int (length lines_cut)
                 then Inl (AtomCountError n (length lines_cut) lines_cut)
                 else map_result (parse_atom_line pfloat isnan) (drop 2 lines_cut))))"

text \<open>
  Modelled from the spec: \<open>biotite.structure.stack\<close> is not part of the sources at
  hand. A stack is an ordered sequence of structures "all sharing the same atom count
  and element layout", and it is "never empty": stacking fails on no arrays and on
  arrays whose element labels differ from those of the first.
\<close>

definition stack :: "'c atom list list \<Rightarrow> 'c error + 'c atom list list" where
  "stack arrays =
     (case arrays of
        [] \<Rightarrow> Inl StackError
      | a # _ \<Rightarrow>
          if list_all (\<lambda>b. map element b = map element a) arrays then Inr arrays
          else Inl StackError)"

text \<open>The last statement of \<open>get_structure\<close>, on the cached stack.\<close>

definition select_structure ::
    "int option \<Rightarrow> 'c atom list list \<Rightarrow> 'c error + 'c atom_struct" where
  "select_structure model st =
     (case model of
        None \<Rightarrow>
          if length st = 1
          then (case py_index st 0 of None \<Rightarrow> Inl IndexError | Some a \<Rightarrow> Inr (AtomArray a))
          else Inr (AtomArrayStack st)
      | Some k \<Rightarrow>
          (case py_index st k of None \<Rightarrow> Inl IndexError | Some a \<Rightarrow> Inr (AtomArray a)))"

text \<open>The atoms of a returned structure, model after model.\<close>

fun struct_atoms :: "'c atom_struct \<Rightarrow> 'c atom list" where
  "struct_atoms (AtomArray a) = a"
| "struct_atoms (AtomArrayStack ms) = concat ms"

text \<open>"parse all coordinates", when the cache of structures is still \<open>None\<close>.\<close>

definition load_structures ::
    "(string \<Rightarrow> 'c option) \<Rightarrow> ('c \<Rightarrow> bool) \<Rightarrow> 'c xyzfile \<Rightarrow> 'c error + 'c xyzfile" where
  "load_structures pfloat isnan f =
     (case structures f of
        Some _ \<Rightarrow> Inr f
      | None \<Rightarrow>
          (case map_result (parse_model pfloat isnan (lines f) (cached (atom_numbers f)))
                  (enumerate 0 (start_inds f)) of
             Inl e \<Rightarrow> Inl e
           | Inr array_stack \<Rightarrow>
               (case stack array_stack of
                  Inl e \<Rightarrow> Inl e
                | Inr st \<Rightarrow> Inr (f\<lparr>structures := Some st\<rparr>))))"

text \<open>
  \<open>get_structure\<close>. The header returned by \<open>get_header\<close> is a pair whose components
  are never \<open>None\<close>, so the call of \<open>set_header("[MOLNAME]")\<close> guarded by
  \<open>names is None or atom_number is None\<close> is never made and has no branch here.
\<close>

definition get_structure ::
    "(string \<Rightarrow> 'c option) \<Rightarrow> ('c \<Rightarrow> bool) \<Rightarrow> int option \<Rightarrow> 'c xyzfile
       \<Rightarrow> ('c error + 'c atom_struct) \<times> 'c xyzfile" where
  "get_structure pfloat isnan model f0 =
     (if length (lines f0) \<le> 2 then (Inl GetStructureEmptyError, f0)
      else
        (case get_header None f0 of
           (Inl e, f1) \<Rightarrow> (Inl e, f1)
         | (Inr _, f1) \<Rightarrow>
             (let f2 = update_start_lines f1
              in case load_atom_numbers f2 of
                   Inl e \<Rightarrow> (Inl e, f2)
                 | Inr f3 \<Rightarrow>
                (case load_mol_names f3 of
                   Inl e \<Rightarrow> (Inl e, f3)
                 | Inr f4 \<Rightarrow>
                (case load_structures pfloat isnan f4 of
                   Inl e \<Rightarrow> (Inl e, f4)
                 | Inr f5 \<Rightarrow> (select_structure model (cached (structures f5)), f5))))))"

section \<open>Writing a structure\<close>

text \<open>
  \<open>"{:<11.6f}"\<close> and \<open>"{:>11.6f}"\<close>: the rendering with six decimal places, padded with
  blanks to a width of 11 on the right or on the left.
\<close>

definition py_ljust :: "nat \<Rightarrow> string \<Rightarrow> string" where
  "py_ljust w s = s @ replicate (w - length s) CHR '' ''"

definition py_rjust :: "nat \<Rightarrow> string \<Rightarrow> string" where
  "py_rjust w s = replicate (w - length s) CHR '' '' @ s"

definition atom_line :: "(string \<Rightarrow> string) \<Rightarrow> ('c \<Rightarrow> string) \<Rightarrow> 'c atom \<Rightarrow> string" where
  "atom_line just fmt6 a =
     (case coord a of (x, y, z) \<Rightarrow>
        ''  '' @ element a @ '' '' @ just (fmt6 x) @ ''    '' @ just (fmt6 y)
          @ ''    '' @ just (fmt6 z) @ '' '')"

text \<open>
  The loop \<open>for i, atom in enumerate(atoms): self.lines[i + off] = line\<close>. The flag
  tells whether every assignment was in range; the lines are those at the end of the
  loop or at the \<open>IndexError\<close>.
\<close>

fun write_atoms :: "('c atom \<Rightarrow> string) \<Rightarrow> nat \<Rightarrow> 'c atom list \<Rightarrow> string list \<Rightarrow> bool \<times> string list" where
  "write_atoms ln off [] ls = (True, ls)"
| "write_atoms ln off (a # as) ls =
     (if off < length ls then write_atoms ln (Suc off) as (ls[off := ln a]) else (False, ls))"

text \<open>The loop over the models of a stack; \<open>i\<close> is the number of the model.\<close>

fun write_models ::
    "('c atom \<Rightarrow> string) \<Rightarrow> nat \<Rightarrow> nat \<Rightarrow> nat \<Rightarrow> 'c atom list list \<Rightarrow> string list
       \<Rightarrow> bool \<times> string list" where
  "write_models ln n0 npm i [] ls = (True, ls)"
| "write_models ln n0 npm i (atoms_i # rest) ls =
     (if i * npm < length ls
      then (let ls1 = ls[i * npm := str_nat n0]
            in if i * npm + 1 < length ls1
               then (let ls2 = ls1[i * npm + 1 := '' '' @ str_nat i]
                     in case write_atoms ln (i * npm + 2) atoms_i ls2 of
                          (True, ls3) \<Rightarrow> write_models ln n0 npm (Suc i) rest ls3
                        | (False, ls3) \<Rightarrow> (False, ls3))
               else (False, ls1))
      else (False, ls))"

definition set_structure ::
    "('c \<Rightarrow> string) \<Rightarrow> 'c atom_struct \<Rightarrow> 'c xyzfile \<Rightarrow> ('c error + unit) \<times> 'c xyzfile" where
  "set_structure fmt6 atoms f =
     (case atoms of
        AtomArray as \<Rightarrow>
          (let n_atoms = length as
           in if length (lines f) < 1 then (Inl IndexError, f)
              else
                (let f1 = f\<lparr>lines := (lines f)[0 := str_nat n_atoms]\<rparr>
                 in if length (lines f1) < 2 then (Inl IndexError, f1)
                    else
                      (let f2 = (if length (lines f1 ! 1) = 0
                                 then f1\<lparr>lines := (lines f1)[1 := ''[MOLNAME]'']\<rparr> else f1);
                           ls3 = lines f2 @ replicate n_atoms []
                       in case write_atoms (atom_line (py_ljust 11) fmt6) 2 as ls3 of
                            (True, ls4) \<Rightarrow> (Inr (), f2\<lparr>lines := ls4\<rparr>)
                          | (False, ls4) \<Rightarrow> (Inl IndexError, f2\<lparr>lines := ls4\<rparr>))))
      | AtomArrayStack ms \<Rightarrow>
          (case py_index ms 0 of
             None \<Rightarrow> (Inl IndexError, f)
           | Some m0 \<Rightarrow>
               (let n_lines_per_model = length m0 + 2;
                    ls1 = lines f @ replicate (n_lines_per_model * length ms) []
                in case write_models (atom_line (py_rjust 11) fmt6) (length m0)
                          n_lines_per_model 0 ms ls1 of
                     (True, ls2) \<Rightarrow> (Inr (), f\<lparr>lines := ls2\<rparr>)
                   | (False, ls2) \<Rightarrow> (Inl IndexError, f\<lparr>lines := ls2\<rparr>))))"

section \<open>Writing and reading back\<close>

text \<open>
  For the round trip: the three coordinates of an atom, the atom with each coordinate
  replaced by what is read back for it, and the condition under which an atom written
  by \<open>set_structure\<close> is read back by \<open>get_structure\<close>: its element label is not empty
  and holds no whitespace, and each coordinate has a rendering that is not empty, holds
  no whitespace, and is read by \<open>float()\<close> as \<open>rd\<close> of the coordinate, which is no NaN.
\<close>

text \<open>The models of a structure: an \<open>AtomArray\<close> is one model.\<close>

fun models :: "'c atom_struct \<Rightarrow> 'c atom list list" where
  "models (AtomArray a) = [a]"
| "models (AtomArrayStack ms) = ms"

definition coord_list :: "'c atom \<Rightarrow> 'c list" where
  "coord_list a = (case coord a of (x, y, z) \<Rightarrow> [x, y, z])"

definition reread :: "('c \<Rightarrow> 'c) \<Rightarrow> 'c atom \<Rightarrow> 'c atom" where
  "reread rd a =
     (case coord a of (x, y, z) \<Rightarrow> \<lparr>element = element a, coord = (rd x, rd y, rd z)\<rparr>)"

definition readable ::
    "('c \<Rightarrow> string) \<Rightarrow> (string \<Rightarrow> 'c option) \<Rightarrow> ('c \<Rightarrow> bool) \<Rightarrow> ('c \<Rightarrow> 'c) \<Rightarrow> 'c atom \<Rightarrow> bool" where
  "readable fmt6 pfloat isnan rd a =
     (element a \<noteq> [] \<and> (\<forall>c \<in> set (element a). \<not> py_isspace c)
      \<and> (\<forall>v \<in> set (coord_list a).
            fmt6 v \<noteq> [] \<and> (\<forall>c \<in> set (fmt6 v). \<not> py_isspace c)
            \<and> pfloat (fmt6 v) = Some (rd v) \<and> \<not> isnan (rd v)))"

section \<open>A fragment of the floating-point numbers\<close>

text \<open>
  The examples of this theory need values for the three parameters. They use a
  fragment of Python's floats: the special values, and the numbers with at most six
  decimal places, \<open>Finite m\<close> being \<open>m / 10\<^sup>6\<close>. On a token that names a special value or
  is a plain decimal literal with at most six decimal places, \<open>float_of_str\<close> is
  \<open>float()\<close>; other tokens (an exponent, more places, underscores) are outside the
  fragment and are not used. \<open>format_6f\<close> is \<open>"{:.6f}".format\<close> and \<open>np_isnan\<close> is
  \<open>numpy.isnan\<close>.
\<close>

datatype pyfloat = Finite int | PosInf | NegInf | NaN

definition lower_char :: "char \<Rightarrow> char" where
  "lower_char c =
     (let n = (of_char c :: nat) in if 65 \<le> n \<and> n \<le> 90 then char_of (n + 32) else c)"

definition decimal_value :: "string \<Rightarrow> int option" where
  "decimal_value b =
     (let ip = takeWhile (\<lambda>c. c \<noteq> CHR ''.'') b;
          fp = drop 1 (dropWhile (\<lambda>c. c \<noteq> CHR ''.'') b)
      in if (ip \<noteq> [] \<or> fp \<noteq> []) \<and> list_all ascii_digit ip \<and> list_all ascii_digit fp
            \<and> length fp \<le> 6
         then Some (digits_value ip * 10 ^ 6 + digits_value fp * 10 ^ (6 - length fp))
         else None)"

definition float_of_str :: "string \<Rightarrow> pyfloat option" where
  "float_of_str s =
     (let t = num_strip s; u = map lower_char t
      in if u \<in> set [''nan'', ''+nan'', ''-nan''] then Some NaN
         else if u \<in> set [''inf'', ''+inf'', ''infinity'', ''+infinity''] then Some PosInf
         else if u \<in> set [''-inf'', ''-infinity''] then Some NegInf
         else if t \<noteq> [] \<and> hd t = CHR ''-''
         then map_option (\<lambda>v. Finite (- v)) (decimal_value (tl t))
         else if t \<noteq> [] \<and> hd t = CHR ''+''
         then map_option Finite (decimal_value (tl t))
         else map_option Finite (decimal_value t))"

definition np_isnan :: "pyfloat \<Rightarrow> bool" where
  "np_isnan v = (v = NaN)"

definition six_places :: "int \<Rightarrow> string" where
  "six_places a = map (\<lambda>k. digit_char (nat (a div 10 ^ k mod 10))) [5, 4, 3, 2, 1, 0]"

fun format_6f :: "pyfloat \<Rightarrow> string" where
  "format_6f (Finite m) =
     (if m < 0 then [CHR ''-''] else [])
       @ str_nat (nat (\<bar>m\<bar> div 1000000)) @ [CHR ''.''] @ six_places \<bar>m\<bar>"
| "format_6f PosInf = ''inf''"
| "format_6f NegInf = ''-inf''"
| "format_6f NaN = ''nan''"

section \<open>Basic facts\<close>

lemma map_result_length: "map_result g xs = Inr ys \<Longrightarrow> length ys = length xs"
  by (induction xs arbitrary: ys) (auto split: sum.splits)

lemma file_of_lines_simps [simp]:
  "lines (file_of_lines ls) = ls" "mol_names (file_of_lines ls) = None"
  "atom_numbers (file_of_lines ls) = None" "model_start_inds (file_of_lines ls) = None"
  "structures (file_of_lines ls) = None"
  by (simp_all add: file_of_lines_def new_xyzfile_def)

lemma update_start_lines_simps [simp]:
  "lines (update_start_lines f) = lines f"
  "mol_names (update_start_lines f) = mol_names f"
  "atom_numbers (update_start_lines f) = atom_numbers f"
  "structures (update_start_lines f) = structures f"
  "model_start_inds (update_start_lines f) = Some (start_lines (lines f))"
  by (simp_all add: update_start_lines_def)

lemma non_body_inds_length:
  "length (non_body_inds ls) = length (filter (\<lambda>l. length (py_split l) \<noteq> 4) ls)"
proof -
  have "map (\<lambda>i. ls ! i) (non_body_inds ls)
      = filter (\<lambda>l. length (py_split l) \<noteq> 4) (map (\<lambda>i. ls ! i) [0..<length ls])"
    unfolding non_body_inds_def by (simp add: filter_map comp_def)
  then have "length (map (\<lambda>i. ls ! i) (non_body_inds ls))
      = length (filter (\<lambda>l. length (py_split l) \<noteq> 4) ls)"
    by (simp add: map_nth)
  then show ?thesis by simp
qed

lemma filter_blocks_length:
  "\<forall>(c, nm, body) \<in> set ms. \<not> P c \<and> \<not> P nm \<and> (\<forall>l \<in> set body. P l)
    \<Longrightarrow> length (filter (\<lambda>l. \<not> P l) (concat (map (\<lambda>(c, nm, body). c # nm # body) ms)))
        = 2 * length ms"
proof (induction ms)
  case Nil
  then show ?case by simp
next
  case (Cons b ms)
  obtain c nm body where b: "b = (c, nm, body)" by (cases b) auto
  from Cons.prems b have "\<not> P c" "\<not> P nm" "\<forall>l \<in> set body. P l" by auto
  then have "filter (\<lambda>l. \<not> P l) (c # nm # body) = [c, nm]" by (simp add: filter_empty_conv)
  with Cons b show ?case by simp
qed

text \<open>
  \<open>get_header\<close> on an object whose header caches are still empty: the counts and the
  names are read at the boundaries found in the buffer.
\<close>

lemma get_header_fresh:
  assumes "atom_numbers f = None" and "mol_names f = None"
  shows "get_header model f =
     (case map_result (read_count (lines f)) (start_lines (lines f)) of
        Inl e \<Rightarrow> (Inl e, f\<lparr>model_start_inds := Some (start_lines (lines f))\<rparr>)
      | Inr a \<Rightarrow>
          (case map_result (read_name (lines f)) (start_lines (lines f)) of
             Inl e \<Rightarrow> (Inl e, f\<lparr>model_start_inds := Some (start_lines (lines f)),
                                 atom_numbers := Some a\<rparr>)
           | Inr m \<Rightarrow> (select_header model a m,
                        f\<lparr>model_start_inds := Some (start_lines (lines f)),
                          atom_numbers := Some a, mol_names := Some m\<rparr>)))"
  using assms
  by (simp add: get_header_def update_start_lines_def load_atom_numbers_def load_mol_names_def
      start_inds_def cached_def split: sum.splits)

lemma select_header_None_ok:
  "length a = length m \<Longrightarrow> \<exists>h. select_header None a m = (Inr h :: 'c error + header)"
  by (cases a; cases m) (auto simp: select_header_def py_index_def)

text \<open>
  \<open>get_structure\<close> on an object with more than two lines and empty caches: header,
  models and stack in turn, the first exception ending the call.
\<close>

lemma get_structure_fresh:
  assumes "atom_numbers f = None" and "mol_names f = None" and "structures f = None"
    and "2 < length (lines f)"
  shows "get_structure pfloat isnan model f =
     (case map_result (read_count (lines f)) (start_lines (lines f)) of
        Inl e \<Rightarrow> (Inl e, f\<lparr>model_start_inds := Some (start_lines (lines f))\<rparr>)
      | Inr a \<Rightarrow>
          (case map_result (read_name (lines f)) (start_lines (lines f)) of
             Inl e \<Rightarrow> (Inl e, f\<lparr>model_start_inds := Some (start_lines (lines f)),
                                 atom_numbers := Some a\<rparr>)
           | Inr m \<Rightarrow>
               (case map_result (parse_model pfloat isnan (lines f) a)
                       (enumerate 0 (start_lines (lines f))) of
                  Inl e \<Rightarrow> (Inl e, f\<lparr>model_start_inds := Some (start_lines (lines f)),
                                      atom_numbers := Some a, mol_names := Some m\<rparr>)
                | Inr arrays \<Rightarrow>
                    (case stack arrays of
                       Inl e \<Rightarrow> (Inl e, f\<lparr>model_start_inds := Some (start_lines (lines f)),
                                           atom_numbers := Some a, mol_names := Some m\<rparr>)
                     | Inr st \<Rightarrow>
                         (select_structure model st,
                          f\<lparr>model_start_inds := Some (start_lines (lines f)),
                            atom_numbers := Some a, mol_names := Some m,
                            structures := Some st\<rparr>)))))"
proof (cases "map_result (read_count (lines f)) (start_lines (lines f)) :: 'a error + int list")
  case (Inl e)
  then show ?thesis using assms
    by (simp add: get_structure_def get_header_fresh)
next
  case a: (Inr a)
  show ?thesis
  proof (cases "map_result (read_name (lines f)) (start_lines (lines f)) :: 'a error + string list")
    case (Inl e)
    then show ?thesis using assms a
      by (simp add: get_structure_def get_header_fresh)
  next
    case m: (Inr m)
    have "length a = length m"
      using map_result_length [OF a] map_result_length [OF m] by simp
    then obtain h where h: "select_header None a m = (Inr h :: 'a error + header)"
      using select_header_None_ok by blast
    show ?thesis using assms a m h
      by (simp add: get_structure_def get_header_fresh update_start_lines_def
          load_atom_numbers_def load_mol_names_def load_structures_def start_inds_def cached_def
          split: sum.splits)
  qed
qed

text \<open>What the steps of the methods leave unchanged, and what a successful call returns.\<close>

lemma load_atom_numbers_lines: "load_atom_numbers f = Inr f' \<Longrightarrow> lines f' = lines f"
  by (auto simp: load_atom_numbers_def split: option.splits sum.splits)

lemma load_mol_names_lines: "load_mol_names f = Inr f' \<Longrightarrow> lines f' = lines f"
  by (auto simp: load_mol_names_def split: option.splits sum.splits)

lemma get_header_lines: "lines (snd (get_header model f)) = lines f"
  by (auto simp: get_header_def Let_def split: sum.splits
      dest!: load_atom_numbers_lines load_mol_names_lines)

lemma load_structures_Some:
  "load_structures pfloat isnan f = Inr f' \<Longrightarrow>
     \<exists>st. structures f' = Some st \<and> (structures f = None \<longrightarrow> st \<noteq> [])"
  by (auto simp: load_structures_def stack_def split: option.splits sum.splits list.splits if_splits)

lemma select_structure_None:
  "select_structure None st = Inr r \<Longrightarrow>
     (length st = 1 \<longrightarrow> r = AtomArray (hd st)) \<and> (length st \<noteq> 1 \<longrightarrow> r = AtomArrayStack st)"
  by (cases st) (auto simp: select_structure_def py_index_def split: if_splits)


lemma load_atom_numbers_structures: "load_atom_numbers f = Inr f' \<Longrightarrow> structures f' = structures f"
  by (auto simp: load_atom_numbers_def split: option.splits sum.splits)

lemma load_mol_names_structures: "load_mol_names f = Inr f' \<Longrightarrow> structures f' = structures f"
  by (auto simp: load_mol_names_def split: option.splits sum.splits)

lemma get_header_structures: "structures (snd (get_header model f)) = structures f"
  by (auto simp: get_header_def Let_def split: sum.splits
      dest!: load_atom_numbers_structures load_mol_names_structures)

lemma get_structure_Inr:
  assumes "get_structure pfloat isnan model f = (Inr r, f')"
  shows "\<exists>st. structures f' = Some st \<and> select_structure model st = Inr r
          \<and> (structures f = None \<longrightarrow> st \<noteq> [])"
proof -
  have len: "\<not> length (lines f) \<le> 2"
    using assms by (auto simp: get_structure_def)
  obtain rh f1 where gh: "get_header None f = (rh, f1)" by (cases "get_header None f")
  with assms len obtain h where rh: "rh = Inr h"
    by (cases rh) (simp_all add: get_structure_def)
  obtain f3 where la: "load_atom_numbers (update_start_lines f1) = Inr f3"
    using assms len gh rh
    by (cases "load_atom_numbers (update_start_lines f1)") (simp_all add: get_structure_def)
  obtain f4 where lm: "load_mol_names f3 = Inr f4"
    using assms len gh rh la
    by (cases "load_mol_names f3") (simp_all add: get_structure_def)
  have ls: "load_structures pfloat isnan f4 = Inr f'"
    and sel: "select_structure model (cached (structures f')) = Inr r"
    using assms len gh rh la lm
    by (cases "load_structures pfloat isnan f4"; simp add: get_structure_def)+
  have "structures f1 = structures f"
    using get_header_structures [of None f] gh by simp
  then have "structures f4 = structures f"
    using load_atom_numbers_structures [OF la] load_mol_names_structures [OF lm] by simp
  with load_structures_Some [OF ls] obtain st where
    "structures f' = Some st" "structures f = None \<longrightarrow> st \<noteq> []" by auto
  with sel show ?thesis by (auto simp: cached_def)
qed

lemma parse_atom_line_fields:
  assumes "line_fields l = e # tx # ty # tz # rest"
    and "pf tx = Some x" and "pf ty = Some y" and "pf tz = Some z"
  shows "parse_atom_line pf isn l =
     (if isn x \<or> isn y \<or> isn z then Inl (NaNCoordError x y z)
      else Inr \<lparr>element = e, coord = (x, y, z)\<rparr>)"
  using assms by (simp add: parse_atom_line_def read_float_def py_index_def)

lemma py_slice_in_range:
  "0 \<le> n \<Longrightarrow> py_slice ls (int i) (int i + n) = take (nat n) (drop i ls)"
  by (auto simp: py_slice_def Let_def min_def nat_diff_distrib nat_add_distrib)

lemma parse_model_eq:
  assumes "py_index nums (int i) = Some n" and "0 \<le> n"
  shows "parse_model pf isn ls nums (i, ind) =
     (if ind + 2 + nat n \<le> length ls
      then map_result (parse_atom_line pf isn) (take (nat n) (drop (ind + 2) ls))
      else Inl (AtomCountError n (length ls - ind) (drop ind ls)))"
proof -
  have "py_slice ls (int ind) (int ind + (2 + n)) = take (nat (2 + n)) (drop ind ls)"
    using assms(2) by (intro py_slice_in_range) simp
  moreover have "nat (2 + n) = nat n + 2" using assms(2) by simp
  ultimately have s: "py_slice ls (int ind) (int ind + 2 + n) = take (nat n + 2) (drop ind ls)"
    by (simp add: add.assoc)
  show ?thesis
  proof (cases "ind + 2 + nat n \<le> length ls")
    case True
    then have len: "length (take (nat n + 2) (drop ind ls)) = nat n + 2" by simp
    have "drop 2 (take (nat n + 2) (drop ind ls)) = take (nat n) (drop (ind + 2) ls)"
      by (simp add: drop_take add.commute)
    with True len assms show ?thesis
      by (simp add: parse_model_def s)
  next
    case False
    then have len: "length (take (nat n + 2) (drop ind ls)) = length ls - ind" by simp
    from False have "take (nat n + 2) (drop ind ls) = drop ind ls" by simp
    moreover from False assms(2) have "n + 2 \<noteq> int (length ls - ind)" by linarith
    ultimately show ?thesis using False len assms
      by (simp add: parse_model_def s Let_def)
  qed
qed

section \<open>Counting models\<close>

text \<open>
  Claim C7. When at most two lines of the buffer have a number of whitespace-separated
  tokens other than 4, \<open>__get_number_of_atoms\<close> returns the single count
  \<open>len(self.lines[2:])\<close>, which is the number of lines minus the two header lines
  whenever the buffer has them, and \<open>get_model_count\<close> returns 1.
\<close>

theorem single_model_count:
  "length (filter (\<lambda>l. length (py_split l) \<noteq> 4) (lines f)) \<le> 2 \<Longrightarrow>
     get_number_of_atoms (lines f) = CountedLines (int (length (drop N_HEADER (lines f))))
     \<and> (N_HEADER \<le> length (lines f) \<longrightarrow>
          get_number_of_atoms (lines f) = CountedLines (int (length (lines f)) - int N_HEADER))
     \<and> get_model_count f = 1"
  by (simp add: get_number_of_atoms_def get_model_count_def non_body_inds_length N_HEADER_def)

theorem single_model_count_witness:
  "length (filter (\<lambda>l. length (py_split l) \<noteq> 4)
       (lines (file_of_lines [''2'', ''[MOL]'', ''C 0.0 0.0 0.0'', ''H 1.0 0.0 0.0''] :: pyfloat xyzfile))) \<le> 2
   \<and> N_HEADER \<le> length (lines (file_of_lines [''2'', ''[MOL]'', ''C 0.0 0.0 0.0'', ''H 1.0 0.0 0.0''] :: pyfloat xyzfile))
   \<and> get_number_of_atoms [''2'', ''[MOL]'', ''C 0.0 0.0 0.0'', ''H 1.0 0.0 0.0''] = CountedLines 2
   \<and> get_model_count (file_of_lines [''2'', ''[MOL]'', ''C 0.0 0.0 0.0'', ''H 1.0 0.0 0.0''] :: pyfloat xyzfile) = 1"
proof -
  let ?ls = "[''2'', ''[MOL]'', ''C 0.0 0.0 0.0'', ''H 1.0 0.0 0.0'']"
  have h: "length (filter (\<lambda>l. length (py_split l) \<noteq> 4) ?ls) \<le> 2"
    by code_simp
  then have "length (filter (\<lambda>l. length (py_split l) \<noteq> 4)
      (lines (file_of_lines ?ls :: pyfloat xyzfile))) \<le> 2"
    by simp
  from single_model_count [OF this] h show ?thesis
    by (simp add: N_HEADER_def)
qed

text \<open>
  Claim C2. A buffer made of \<open>N \<ge> 2\<close> models, each a count line and a name line that
  do not have 4 tokens followed by body lines that all have 4 tokens, has the model
  count \<open>N\<close>.
\<close>

theorem multi_model_count:
  assumes "lines f = concat (map (\<lambda>(c, nm, body). c # nm # body) ms)"
    and "\<forall>(c, nm, body) \<in> set ms. length (py_split c) \<noteq> 4 \<and> length (py_split nm) \<noteq> 4
            \<and> (\<forall>l \<in> set body. length (py_split l) = 4)"
    and "2 \<le> length ms"
  shows "get_model_count f = length ms"
proof -
  have "length (non_body_inds (lines f)) = 2 * length ms"
    using filter_blocks_length [of ms "\<lambda>l. length (py_split l) = 4"] assms(1,2)
    by (simp add: non_body_inds_length)
  with assms(3) show ?thesis
    by (simp add: get_model_count_def get_number_of_atoms_def)
qed

theorem multi_model_count_witness:
  "get_model_count
     (file_of_lines [''1'', ''A'', ''C 0 0 0'', ''1'', ''B'', ''C 1 1 1''] :: pyfloat xyzfile) = 2"
proof -
  let ?ms = "[(''1'', ''A'', [''C 0 0 0'']), (''1'', ''B'', [''C 1 1 1''])]"
  let ?f = "file_of_lines [''1'', ''A'', ''C 0 0 0'', ''1'', ''B'', ''C 1 1 1''] :: pyfloat xyzfile"
  have 1: "lines ?f = concat (map (\<lambda>(c, nm, body). c # nm # body) ?ms)"
    by simp
  have t: "length (py_split ''1'') = 1" "length (py_split ''A'') = 1" "length (py_split ''B'') = 1"
    "length (py_split ''C 0 0 0'') = 4" "length (py_split ''C 1 1 1'') = 4"
    by code_simp+
  have 2: "\<forall>(c, nm, body) \<in> set ?ms. length (py_split c) \<noteq> 4 \<and> length (py_split nm) \<noteq> 4
            \<and> (\<forall>l \<in> set body. length (py_split l) = 4)"
    by (simp add: t del: py_split.simps)
  have 3: "2 \<le> length ?ms" by simp
  from multi_model_count [OF 1 2 3] show ?thesis by simp
qed

section \<open>Boundaries and header\<close>

text \<open>
  Claim C8, as stated, fails: two candidates do not collapse to the first whatever
  their distance. The purge of \<open>__update_start_lines\<close> runs for every list of more than
  one candidate and removes only a candidate directly below its predecessor; the later
  branch for exactly two candidates is never reached. Here the candidates are lines 0
  and 3, and both remain, as a file of two models needs.
\<close>

theorem two_candidates_both_kept:
  "start_candidates [''1'', ''A'', ''C 0 0 0'', ''1'', ''B'', ''C 1 1 1''] = [0, 3]
   \<and> model_start_inds (update_start_lines
        (file_of_lines [''1'', ''A'', ''C 0 0 0'', ''1'', ''B'', ''C 1 1 1''] :: pyfloat xyzfile))
     = Some [0, 3]"
  apply (simp only: update_start_lines_simps file_of_lines_simps)
  apply code_simp
  done

text \<open>
  Claim C8, amended. When the first scan finds exactly two candidates, the detector
  keeps the first, and it keeps the second exactly when the second is not the line
  directly below the first.
\<close>

theorem two_candidates_start_lines:
  "start_candidates (lines f) = [a, b] \<Longrightarrow>
     model_start_inds (update_start_lines f) = Some (if b = Suc a then [a] else [a, b])"
  by (simp add: start_lines_def purge_adjacent_def)

theorem two_candidates_start_lines_witness:
  "start_candidates (lines (file_of_lines [''2'', ''5'', ''C 0 0 0'', ''H 1 0 0''] :: pyfloat xyzfile))
     = [0, 1]
   \<and> model_start_inds (update_start_lines
         (file_of_lines [''2'', ''5'', ''C 0 0 0'', ''H 1 0 0''] :: pyfloat xyzfile)) = Some [0]"
proof -
  let ?f = "file_of_lines [''2'', ''5'', ''C 0 0 0'', ''H 1 0 0''] :: pyfloat xyzfile"
  have "start_candidates [''2'', ''5'', ''C 0 0 0'', ''H 1 0 0''] = [0, 1]"
    by code_simp
  then have h: "start_candidates (lines ?f) = [0, 1]" by simp
  from two_candidates_start_lines [OF h] h show ?thesis by simp
qed

text \<open>
  Claim C4. The claim says that every index \<open>m \<ge> M\<close> is refused with the error that
  names \<open>m\<close> and \<open>M\<close>. The guard of \<open>get_header\<close> is \<open>model > len(...)\<close>, so the index
  \<open>m = M\<close> passes it and the list access raises \<open>IndexError\<close>: here \<open>M = 2\<close> and
  \<open>m = 2\<close>.
\<close>

theorem get_header_model_eq_count:
  "fst (get_header (Some 2)
     (file_of_lines [''1'', ''A'', ''C 0 0 0'', ''1'', ''B'', ''C 1 1 1''] :: pyfloat xyzfile))
   = Inl IndexError"
  apply (simp only: get_header_fresh file_of_lines_simps)
  apply code_simp
  done

section \<open>The spec's example file\<close>

text \<open>
  The lines \<open>["2", "[MOL]", "C 0.0 0.0 0.0", "H 1.0 0.0 0.0"]\<close>: one model, two
  atoms.
\<close>

lemma ex1_start: "start_lines [''2'', ''[MOL]'', ''C 0.0 0.0 0.0'', ''H 1.0 0.0 0.0''] = [0]"
  by code_simp
lemma ex1_counts: "map_result (read_count [''2'', ''[MOL]'', ''C 0.0 0.0 0.0'', ''H 1.0 0.0 0.0'']) [0]
    = (Inr [2] :: pyfloat error + int list)"
  by code_simp
lemma ex1_names: "map_result (read_name [''2'', ''[MOL]'', ''C 0.0 0.0 0.0'', ''H 1.0 0.0 0.0'']) [0]
    = (Inr [''[MOL]''] :: pyfloat error + string list)"
  by code_simp
lemma ex1_fields:
  "line_fields ''C 0.0 0.0 0.0'' = [''C'', ''0.0'', ''0.0'', ''0.0'']"
  "line_fields ''H 1.0 0.0 0.0'' = [''H'', ''1.0'', ''0.0'', ''0.0'']"
  by code_simp+
lemma ex1_floats: "float_of_str ''0.0'' = Some (Finite 0)" "float_of_str ''1.0'' = Some (Finite 1000000)"
  by code_simp+
lemma ex1_atoms:
  "parse_atom_line float_of_str np_isnan ''C 0.0 0.0 0.0''
     = Inr \<lparr>element = ''C'', coord = (Finite 0, Finite 0, Finite 0)\<rparr>"
  "parse_atom_line float_of_str np_isnan ''H 1.0 0.0 0.0''
     = Inr \<lparr>element = ''H'', coord = (Finite 1000000, Finite 0, Finite 0)\<rparr>"
  using ex1_fields ex1_floats
  by (simp_all add: parse_atom_line_def read_float_def py_index_def np_isnan_def)
lemma ex1_models:
  "map_result (parse_model float_of_str np_isnan
       [''2'', ''[MOL]'', ''C 0.0 0.0 0.0'', ''H 1.0 0.0 0.0''] [2]) [(0, 0)]
    = Inr [[\<lparr>element = ''C'', coord = (Finite 0, Finite 0, Finite 0)\<rparr>,
            \<lparr>element = ''H'', coord = (Finite 1000000, Finite 0, Finite 0)\<rparr>]]"
proof -
  have "py_index [2::int] (int 0) = Some 2" by (simp add: py_index_def)
  from parse_model_eq [OF this, of float_of_str np_isnan _ 0] show ?thesis
    by (simp add: ex1_atoms)
qed

lemma ex1_get_structure:
  "get_structure float_of_str np_isnan None
     (file_of_lines [''2'', ''[MOL]'', ''C 0.0 0.0 0.0'', ''H 1.0 0.0 0.0''])
   = (Inr (AtomArray [\<lparr>element = ''C'', coord = (Finite 0, Finite 0, Finite 0)\<rparr>,
                      \<lparr>element = ''H'', coord = (Finite 1000000, Finite 0, Finite 0)\<rparr>]),
      (file_of_lines [''2'', ''[MOL]'', ''C 0.0 0.0 0.0'', ''H 1.0 0.0 0.0''])
      \<lparr>model_start_inds := Some [0], atom_numbers := Some [2], mol_names := Some [''[MOL]''],
       structures := Some [[\<lparr>element = ''C'', coord = (Finite 0, Finite 0, Finite 0)\<rparr>,
                      \<lparr>element = ''H'', coord = (Finite 1000000, Finite 0, Finite 0)\<rparr>]]\<rparr>)"
  by (simp add: get_structure_fresh ex1_start ex1_counts ex1_names ex1_models stack_def
      select_structure_def py_index_def
      del: map_result.simps)

section \<open>Operations on a buffer without body\<close>

text \<open>
  Claim C6, as stated, fails for \<open>get_header\<close>: it has no check of the buffer, and on
  a newly constructed file it returns the pair of empty lists.
\<close>

theorem get_header_new_file:
  "fst (get_header None (new_xyzfile :: pyfloat xyzfile)) = Inr (Headers [] [])"
  by code_simp

text \<open>
  Claim C6, amended. On a buffer of at most two lines \<open>get_structure\<close> raises its
  "empty XYZFile" error and leaves the object as it was, and \<open>set_header\<close> without a
  model index raises an error. Nothing is said of \<open>get_header\<close>.
\<close>

theorem empty_buffer_operations:
  assumes "length (lines f) \<le> 2"
  shows "get_structure pfloat isnan model f = (Inl GetStructureEmptyError, f)
       \<and> (\<exists>e. fst (set_header mol_name None f) = Inl e)"
proof
  show "get_structure pfloat isnan model f = (Inl GetStructureEmptyError, f)"
    using assms by (simp add: get_structure_def)
next
  have body: "\<And>g. length (lines g) \<le> 2
      \<Longrightarrow> set_header_body mol_name None g = (Inl SetHeaderEmptyError, g)"
    by (simp add: set_header_body_def)
  show "\<exists>e. fst (set_header mol_name None f) = Inl e"
  proof (cases "mol_names f")
    case (Some m)
    with assms show ?thesis by (simp add: set_header_def body)
  next
    case None
    obtain r f1 where g: "get_header None f = (r, f1)" by (cases "get_header None f")
    then have "lines f1 = lines f" using get_header_lines [of None f] by simp
    with assms have "length (lines f1) \<le> 2" by simp
    with None g show ?thesis
      by (cases r) (simp_all add: set_header_def body)
  qed
qed

theorem empty_buffer_operations_witness:
  "length (lines (new_xyzfile :: pyfloat xyzfile)) \<le> 2
   \<and> get_structure float_of_str np_isnan None (new_xyzfile :: pyfloat xyzfile)
        = (Inl GetStructureEmptyError, new_xyzfile)
   \<and> (\<exists>e. fst (set_header ''name'' None (new_xyzfile :: pyfloat xyzfile)) = Inl e)"
proof -
  have h: "length (lines (new_xyzfile :: pyfloat xyzfile)) \<le> 2"
    by (simp add: new_xyzfile_def N_HEADER_def)
  from empty_buffer_operations [OF h] h show ?thesis by blast
qed

section \<open>The result of \<open>get_structure\<close> without a model index\<close>

text \<open>
  Claim C9. When \<open>get_structure\<close> is called without a model index and returns, the
  object holds a stack; the result is its only structure, unwrapped, when the stack has
  one model, and the stack itself when it has two or more. A stack that this call built
  is not empty.
\<close>

theorem get_structure_model_omitted:
  assumes "get_structure pfloat isnan None f = (Inr r, f')"
  shows "\<exists>st. structures f' = Some st
          \<and> (length st = 1 \<longrightarrow> r = AtomArray (hd st))
          \<and> (2 \<le> length st \<longrightarrow> r = AtomArrayStack st)
          \<and> (structures f = None \<longrightarrow> st \<noteq> [])"
proof -
  from get_structure_Inr [OF assms] obtain st where
    st: "structures f' = Some st" "select_structure None st = Inr r"
      "structures f = None \<longrightarrow> st \<noteq> []" by (elim exE conjE)
  from select_structure_None [OF st(2)]
  have a: "length st = 1 \<longrightarrow> r = AtomArray (hd st)"
    and b: "length st \<noteq> 1 \<longrightarrow> r = AtomArrayStack st"
    by blast+
  have c: "2 \<le> length st \<longrightarrow> r = AtomArrayStack st"
  proof
    assume "2 \<le> length st"
    then have "length st \<noteq> 1" by simp
    with b show "r = AtomArrayStack st" by blast
  qed
  show ?thesis
  proof (intro exI conjI)
    show "structures f' = Some st" by (fact st(1))
    show "length st = 1 \<longrightarrow> r = AtomArray (hd st)" by (fact a)
    show "2 \<le> length st \<longrightarrow> r = AtomArrayStack st" by (fact c)
    show "structures f = None \<longrightarrow> st \<noteq> []" by (fact st(3))
  qed
qed

theorem get_structure_model_omitted_witness:
  "get_structure float_of_str np_isnan None
       (file_of_lines [''2'', ''[MOL]'', ''C 0.0 0.0 0.0'', ''H 1.0 0.0 0.0''])
     = (Inr (AtomArray [\<lparr>element = ''C'', coord = (Finite 0, Finite 0, Finite 0)\<rparr>,
                      \<lparr>element = ''H'', coord = (Finite 1000000, Finite 0, Finite 0)\<rparr>]),
      (file_of_lines [''2'', ''[MOL]'', ''C 0.0 0.0 0.0'', ''H 1.0 0.0 0.0''])
      \<lparr>model_start_inds := Some [0], atom_numbers := Some [2], mol_names := Some [''[MOL]''],
       structures := Some [[\<lparr>element = ''C'', coord = (Finite 0, Finite 0, Finite 0)\<rparr>,
                      \<lparr>element = ''H'', coord = (Finite 1000000, Finite 0, Finite 0)\<rparr>]]\<rparr>)
   \<and> (\<exists>st. structures ((file_of_lines [''2'', ''[MOL]'', ''C 0.0 0.0 0.0'', ''H 1.0 0.0 0.0''])
      \<lparr>model_start_inds := Some [0], atom_numbers := Some [2], mol_names := Some [''[MOL]''],
       structures := Some [[\<lparr>element = ''C'', coord = (Finite 0, Finite 0, Finite 0)\<rparr>,
                      \<lparr>element = ''H'', coord = (Finite 1000000, Finite 0, Finite 0)\<rparr>]]\<rparr>) = Some st
          \<and> (length st = 1 \<longrightarrow>
               AtomArray [\<lparr>element = ''C'', coord = (Finite 0, Finite 0, Finite 0)\<rparr>,
                      \<lparr>element = ''H'', coord = (Finite 1000000, Finite 0, Finite 0)\<rparr>]
                 = AtomArray (hd st))
          \<and> (2 \<le> length st \<longrightarrow>
               AtomArray [\<lparr>element = ''C'', coord = (Finite 0, Finite 0, Finite 0)\<rparr>,
                      \<lparr>element = ''H'', coord = (Finite 1000000, Finite 0, Finite 0)\<rparr>]
                 = AtomArrayStack st)
          \<and> (structures (file_of_lines [''2'', ''[MOL]'', ''C 0.0 0.0 0.0'', ''H 1.0 0.0 0.0''] :: pyfloat xyzfile) = None
               \<longrightarrow> st \<noteq> []))"
  by (rule conjI [OF ex1_get_structure get_structure_model_omitted [OF ex1_get_structure]])

section \<open>Comprehensions that raise\<close>

lemma map_result_nth:
  "map_result g xs = Inr ys \<Longrightarrow> i < length xs \<Longrightarrow> g (xs ! i) = Inr (ys ! i)"
proof (induction xs arbitrary: ys i)
  case Nil
  then show ?case by simp
next
  case (Cons x xs)
  then show ?case
    by (cases i) (auto split: sum.splits)
qed

lemma map_result_first_error:
  "i < length xs \<Longrightarrow> g (xs ! i) = Inl e \<Longrightarrow> \<forall>j<i. \<exists>y. g (xs ! j) = Inr y
     \<Longrightarrow> map_result g xs = Inl e"
proof (induction xs arbitrary: i)
  case Nil
  then show ?case by simp
next
  case (Cons x xs)
  show ?case
  proof (cases i)
    case 0
    with Cons.prems show ?thesis by simp
  next
    case (Suc k)
    with Cons.prems have x: "\<exists>y. g x = Inr y" by auto
    from Suc Cons.prems have "\<forall>j<k. \<exists>y. g (xs ! j) = Inr y" by auto
    with Cons.IH [of k] Suc Cons.prems have "map_result g xs = Inl e" by simp
    with x show ?thesis by auto
  qed
qed

lemma map_result_some_error:
  assumes "i < length xs" and "g (xs ! i) = Inl e"
  shows "\<exists>e'. map_result g xs = Inl e'"
proof (cases "map_result g xs")
  case (Inl a)
  then show ?thesis by simp
next
  case (Inr ys)
  from map_result_nth [OF Inr assms(1)] assms(2) show ?thesis by simp
qed

lemma map_result_all:
  "\<forall>x \<in> set xs. g x = Inr (h x) \<Longrightarrow> map_result g xs = Inr (map h xs)"
  by (induction xs) simp_all

section \<open>Header counts are not negative\<close>

lemma set_py_strip: "set (py_strip s) \<subseteq> set s"
proof -
  have "set (dropWhile py_isspace (rev (dropWhile py_isspace s))) \<subseteq> set (rev (dropWhile py_isspace s))"
    by (rule set_dropWhileD [THEN subsetI])
  also have "\<dots> \<subseteq> set s" using set_dropWhileD [of _ py_isspace s] by auto
  finally show ?thesis by (simp add: py_strip_def)
qed

lemma set_num_strip: "set (num_strip s) \<subseteq> set s"
proof -
  have "set (dropWhile num_isspace (rev (dropWhile num_isspace s))) \<subseteq> set (rev (dropWhile num_isspace s))"
    by (rule set_dropWhileD [THEN subsetI])
  also have "\<dots> \<subseteq> set s" using set_dropWhileD [of _ num_isspace s] by auto
  finally show ?thesis by (simp add: num_strip_def)
qed

lemma set_py_strip_blank: "set (py_strip_blank s) \<subseteq> set s"
proof -
  let ?b = "\<lambda>c. c = CHR '' ''"
  have "set (dropWhile ?b (rev (dropWhile ?b s))) \<subseteq> set (rev (dropWhile ?b s))"
    by (rule set_dropWhileD [THEN subsetI])
  also have "\<dots> \<subseteq> set s" using set_dropWhileD [of _ ?b s] by auto
  finally show ?thesis by (simp add: py_strip_blank_def)
qed

lemma digits_value_nonneg_aux:
  "\<forall>c \<in> set s. 0 \<le> digit_val c \<Longrightarrow> 0 \<le> a \<Longrightarrow> 0 \<le> foldl (\<lambda>a c. 10 * a + digit_val c) a s"
  by (induction s arbitrary: a) simp_all

lemma digit_val_nonneg: "ascii_digit c \<Longrightarrow> 0 \<le> digit_val c"
proof -
  assume "ascii_digit c"
  then have "48 \<le> (of_char c :: nat)" by (simp add: ascii_digit_def Let_def)
  then have "48 \<le> int (of_char c)" by simp
  then show ?thesis by (simp add: digit_val_def of_nat_of_char)
qed

lemma digits_value_nonneg:
  "list_all ascii_digit s \<Longrightarrow> 0 \<le> digits_value s"
  unfolding digits_value_def
  by (rule digits_value_nonneg_aux) (auto simp: list_all_iff digit_val_nonneg)

lemma py_int_nonneg:
  assumes "py_int s = Some n" and "CHR ''-'' \<notin> set s"
  shows "0 \<le> n"
proof -
  define t where "t = num_strip s"
  define body where
    "body = (if t \<noteq> [] \<and> (hd t = CHR ''-'' \<or> hd t = CHR ''+'') then tl t else t)"
  have notneg: "\<not> (t \<noteq> [] \<and> hd t = CHR ''-'')"
  proof
    assume "t \<noteq> [] \<and> hd t = CHR ''-''"
    then have "CHR ''-'' \<in> set t" by (metis hd_in_set)
    with set_num_strip [of s] assms(2) show False by (auto simp: t_def)
  qed
  have eq: "py_int s =
      (if valid_int_body body
       then Some ((if t \<noteq> [] \<and> hd t = CHR ''-'' then - 1 else 1)
                  * digits_value (filter (\<lambda>c. c \<noteq> CHR ''_'') body))
       else None)"
    unfolding py_int_def t_def body_def Let_def by (rule refl)
  from assms(1) have v: "valid_int_body body"
    unfolding eq by (simp split: if_splits)
  then have "list_all ascii_digit (filter (\<lambda>c. c \<noteq> CHR ''_'') body)"
    by (auto simp: valid_int_body_def list_all_iff)
  then have "0 \<le> digits_value (filter (\<lambda>c. c \<noteq> CHR ''_'') body)"
    by (rule digits_value_nonneg)
  moreover from assms(1) v notneg have "n = digits_value (filter (\<lambda>c. c \<noteq> CHR ''_'') body)"
    unfolding eq by (simp split: if_splits)
  ultimately show ?thesis by simp
qed

lemma py_isdigit_no_minus: "py_isdigit t \<Longrightarrow> CHR ''-'' \<notin> set t"
  by (auto simp: py_isdigit_def list_all_iff py_isdigit_char_def ascii_digit_def)

lemma set_purge_adjacent: "inds \<noteq> [] \<Longrightarrow> set (purge_adjacent inds) \<subseteq> set inds"
  by (auto simp: purge_adjacent_def)

lemma set_start_lines: "set (start_lines ls) \<subseteq> set (start_candidates ls)"
proof -
  have "set (take 1 (start_candidates ls)) \<subseteq> set (start_candidates ls)"
    by (rule set_take_subset)
  moreover have "1 < length (start_candidates ls)
      \<Longrightarrow> set (purge_adjacent (start_candidates ls)) \<subseteq> set (start_candidates ls)"
    by (rule set_purge_adjacent) auto
  ultimately show ?thesis by (auto simp: start_lines_def Let_def)
qed

lemma start_lines_candidate:
  assumes "i \<in> set (start_lines ls)"
  shows "i < length ls \<and> py_isdigit (py_strip (ls ! i))"
  using assms set_start_lines [of ls] by (auto simp: start_candidates_def)

lemma read_count_nonneg:
  assumes "i \<in> set (start_lines ls)" and "read_count ls i = Inr n"
  shows "0 \<le> n"
proof -
  from start_lines_candidate [OF assms(1)]
  have i: "i < length ls" and d: "py_isdigit (py_strip (ls ! i))" by simp_all
  from d have "CHR ''-'' \<notin> set (py_strip (ls ! i))" by (rule py_isdigit_no_minus)
  with set_py_strip_blank [of "py_strip (ls ! i)"]
  have m: "CHR ''-'' \<notin> set (py_strip_blank (py_strip (ls ! i)))" by auto
  from assms(2) i have "py_int (py_strip_blank (py_strip (ls ! i))) = Some n"
    by (simp add: read_count_def py_index_def split: option.splits)
  from py_int_nonneg [OF this m] show ?thesis .
qed

lemma header_counts_nonneg:
  assumes "map_result (read_count ls) (start_lines ls) = Inr a" and "i < length (start_lines ls)"
  shows "0 \<le> a ! i"
proof -
  note rc = map_result_nth [OF assms]
  from assms(2) have "start_lines ls ! i \<in> set (start_lines ls)" by simp
  from read_count_nonneg [OF this rc] show ?thesis .
qed

section \<open>A span that does not match the declared count\<close>

lemma py_index_nth: "i < length xs \<Longrightarrow> py_index xs (int i) = Some (xs ! i)"
  by (simp add: py_index_def)







section \<open>Coordinates that are not numbers\<close>

lemma map_result_set:
  "map_result g xs = Inr ys \<Longrightarrow> y \<in> set ys \<Longrightarrow> \<exists>x \<in> set xs. g x = Inr y"
proof (induction xs arbitrary: ys)
  case Nil
  then show ?case by simp
next
  case (Cons x xs)
  then show ?case by (auto split: sum.splits)
qed

lemma parse_atom_line_not_nan:
  assumes "parse_atom_line pf isn l = Inr at"
  shows "\<not> isn (fst (coord at)) \<and> \<not> isn (fst (snd (coord at))) \<and> \<not> isn (snd (snd (coord at)))"
  using assms
  by (auto simp: parse_atom_line_def Let_def split: sum.splits if_splits option.splits)

lemma parse_model_not_nan:
  assumes "parse_model pf isn ls nums p = Inr arr" and "at \<in> set arr"
  shows "\<not> isn (fst (coord at)) \<and> \<not> isn (fst (snd (coord at))) \<and> \<not> isn (snd (snd (coord at)))"
proof -
  obtain i ind where p: "p = (i, ind)" by (cases p)
  from assms(1) obtain lns where "map_result (parse_atom_line pf isn) lns = Inr arr"
    unfolding p parse_model_def Let_def
    by (auto split: option.splits if_splits)
  from map_result_set [OF this assms(2)] obtain l where "parse_atom_line pf isn l = Inr at"
    by (elim bexE)
  then show ?thesis by (rule parse_atom_line_not_nan)
qed

lemma stack_Inr: "stack arrays = Inr st \<Longrightarrow> st = arrays"
  by (auto simp: stack_def split: list.splits if_splits)

lemma select_structure_atoms:
  assumes "select_structure model st = Inr r"
  shows "set (struct_atoms r) \<subseteq> (\<Union>arr \<in> set st. set arr)"
proof (cases model)
  case None
  show ?thesis
  proof (cases "length st = 1")
    case True
    then obtain a where "st = [a]" by (cases st) auto
    with assms None show ?thesis by (auto simp: select_structure_def py_index_def)
  next
    case False
    with assms None show ?thesis by (auto simp: select_structure_def)
  qed
next
  case (Some k)
  with assms obtain a where a: "py_index st k = Some a" "r = AtomArray a"
    by (auto simp: select_structure_def split: option.splits)
  from a(1) have "a \<in> set st"
    by (auto simp: py_index_def Let_def split: if_splits)
  with a(2) show ?thesis by auto
qed

lemma no_nan_returned:
  fixes f :: "'c xyzfile"
  assumes "atom_numbers f = None" and "mol_names f = None" and "structures f = None"
    and res: "get_structure pfloat isnan model f = (Inr r, f')"
    and at: "at \<in> set (struct_atoms r)"
  shows "\<not> isnan (fst (coord at)) \<and> \<not> isnan (fst (snd (coord at)))
          \<and> \<not> isnan (snd (snd (coord at)))"
proof -
  have len: "2 < length (lines f)"
    using res by (cases "length (lines f) \<le> 2") (simp_all add: get_structure_def)
  note gs = get_structure_fresh [OF assms(1-3) len, of pfloat isnan model]
  from res obtain a where a: "map_result (read_count (lines f)) (start_lines (lines f))
      = (Inr a :: 'c error + int list)"
    unfolding gs by (cases "map_result (read_count (lines f)) (start_lines (lines f)) :: 'c error + int list") simp_all
  from res a obtain m where m: "map_result (read_name (lines f)) (start_lines (lines f))
      = (Inr m :: 'c error + string list)"
    unfolding gs by (cases "map_result (read_name (lines f)) (start_lines (lines f)) :: 'c error + string list") simp_all
  from res a m obtain arrays where arrays:
    "map_result (parse_model pfloat isnan (lines f) a) (enumerate 0 (start_lines (lines f))) = Inr arrays"
    unfolding gs
    by (cases "map_result (parse_model pfloat isnan (lines f) a) (enumerate 0 (start_lines (lines f)))") simp_all
  from res a m arrays obtain st where st: "stack arrays = Inr st"
    unfolding gs by (cases "stack arrays") simp_all
  from res a m arrays st have sel: "select_structure model st = Inr r"
    unfolding gs by simp
  from select_structure_atoms [OF sel] at obtain arr where arr: "arr \<in> set st" "at \<in> set arr"
    by auto
  from stack_Inr [OF st] arr(1) have "arr \<in> set arrays" by simp
  from map_result_set [OF arrays this] obtain p where
    "parse_model pfloat isnan (lines f) a p = Inr arr" by (elim bexE)
  from parse_model_not_nan [OF this arr(2)] show ?thesis .
qed

lemma parse_model_nan_line:
  assumes ix: "py_index nums (int i) = Some n" and n0: "0 \<le> n"
    and span: "ind + 2 + nat n \<le> length ls" and j: "j < nat n"
    and bad: "parse_atom_line pf isn (ls ! (ind + 2 + j)) = Inl e"
  shows "(\<exists>e'. parse_model pf isn ls nums (i, ind) = Inl e')
       \<and> ((\<forall>j'<j. \<exists>at. parse_atom_line pf isn (ls ! (ind + 2 + j')) = Inr at)
            \<longrightarrow> parse_model pf isn ls nums (i, ind) = Inl e)"
proof -
  let ?xs = "take (nat n) (drop (ind + 2) ls)"
  have pm: "parse_model pf isn ls nums (i, ind) = map_result (parse_atom_line pf isn) ?xs"
    using parse_model_eq [OF ix n0, of pf isn ls ind] span by simp
  have len: "length ?xs = nat n" using span by simp
  have nth: "\<And>k. k < nat n \<Longrightarrow> ?xs ! k = ls ! (ind + 2 + k)"
    using span by simp
  have jj: "j < length ?xs" using j len by simp
  have bad': "parse_atom_line pf isn (?xs ! j) = Inl e" using bad nth [OF j] by simp
  from map_result_some_error [of j ?xs "parse_atom_line pf isn", OF jj bad']
  have 1: "\<exists>e'. parse_model pf isn ls nums (i, ind) = Inl e'" unfolding pm .
  have 2: "parse_model pf isn ls nums (i, ind) = Inl e"
    if earlier: "\<forall>j'<j. \<exists>at. parse_atom_line pf isn (ls ! (ind + 2 + j')) = Inr at"
  proof -
    have "\<forall>j'<j. \<exists>at. parse_atom_line pf isn (?xs ! j') = Inr at"
      using earlier nth j by simp
    from map_result_first_error [of j ?xs "parse_atom_line pf isn", OF jj bad' this]
    show ?thesis unfolding pm .
  qed
  from 1 2 show ?thesis by (intro conjI impI)
qed

lemma ex4_start: "start_lines [''1'', ''m'', ''C inf 0 0''] = [0]"
  by code_simp
lemma ex4_counts: "map_result (read_count [''1'', ''m'', ''C inf 0 0'']) [0]
    = (Inr [1] :: pyfloat error + int list)"
  by code_simp
lemma ex4_names: "map_result (read_name [''1'', ''m'', ''C inf 0 0'']) [0]
    = (Inr [''m''] :: pyfloat error + string list)"
  by code_simp
lemma ex4_fields: "line_fields ''C inf 0 0'' = [''C'', ''inf'', ''0'', ''0'']"
  by code_simp
lemma ex4_floats: "float_of_str ''inf'' = Some PosInf" "float_of_str ''0'' = Some (Finite 0)"
  by code_simp+
lemma ex4_atom:
  "parse_atom_line float_of_str np_isnan ''C inf 0 0''
     = Inr \<lparr>element = ''C'', coord = (PosInf, Finite 0, Finite 0)\<rparr>"
  using ex4_fields ex4_floats
  by (simp add: parse_atom_line_def read_float_def py_index_def np_isnan_def)
lemma ex4_models:
  "map_result (parse_model float_of_str np_isnan [''1'', ''m'', ''C inf 0 0''] [1]) [(0, 0)]
    = Inr [[\<lparr>element = ''C'', coord = (PosInf, Finite 0, Finite 0)\<rparr>]]"
proof -
  have "py_index [1 :: int] (int 0) = Some 1" by (simp add: py_index_def)
  from parse_model_eq [OF this, of float_of_str np_isnan _ 0] show ?thesis
    by (simp add: ex4_atom)
qed

lemma ex5_start: "start_lines [''1'', ''A'', ''C 0 0 nan''] = [0]"
  by code_simp
lemma ex5_counts: "map_result (read_count [''1'', ''A'', ''C 0 0 nan'']) [0]
    = (Inr [1] :: pyfloat error + int list)"
  by code_simp
lemma ex5_names: "map_result (read_name [''1'', ''A'', ''C 0 0 nan'']) [0]
    = (Inr [''A''] :: pyfloat error + string list)"
  by code_simp
lemma ex5_fields: "line_fields ''C 0 0 nan'' = [''C'', ''0'', ''0'', ''nan'']"
  by code_simp
lemma ex5_floats: "float_of_str ''nan'' = Some NaN" "float_of_str ''0'' = Some (Finite 0)"
  by code_simp+

text \<open>
  Claim C3, as stated, fails for infinite coordinates: the test in \<open>get_structure\<close> is
  \<open>numpy.isnan\<close> alone. A body line whose x is \<open>inf\<close> is read, and the structure returned
  holds the infinite coordinate.
\<close>

theorem infinite_coordinate_returned:
  "fst (get_structure float_of_str np_isnan None (file_of_lines [''1'', ''m'', ''C inf 0 0'']))
     = Inr (AtomArray [\<lparr>element = ''C'', coord = (PosInf, Finite 0, Finite 0)\<rparr>])"
  by (simp add: get_structure_fresh ex4_start ex4_counts ex4_names ex4_models stack_def
      select_structure_def py_index_def del: map_result.simps)

text \<open>
  Claim C3, amended to NaN. Take an object with empty caches and more than two lines
  whose count lines and name lines are read without error, and a body line of one of
  its models whose span has the declared length, whose fields 1 to 3 are read by
  \<open>float()\<close> as \<open>x\<close>, \<open>y\<close>, \<open>z\<close>, one of them a NaN. Then reading that line raises the
  error that carries the triple \<open>(x, y, z)\<close>; \<open>get_structure\<close> raises an error; and it
  raises that very error when the earlier models and the earlier lines of this model
  are read without error. Moreover no structure returned by \<open>get_structure\<close> on an object
  with empty caches has a NaN coordinate.
\<close>

theorem nan_coordinate_error:
  fixes f :: "'c xyzfile"
  assumes "atom_numbers f = None" and "mol_names f = None" and "structures f = None"
    and "2 < length (lines f)"
    and counts: "map_result (read_count (lines f)) (start_lines (lines f)) = (Inr a :: 'c error + int list)"
    and names: "map_result (read_name (lines f)) (start_lines (lines f)) = (Inr m :: 'c error + string list)"
    and i: "i < length (start_lines (lines f))"
    and span: "start_lines (lines f) ! i + 2 + nat (a ! i) \<le> length (lines f)"
    and j: "j < nat (a ! i)"
    and fields: "line_fields (lines f ! (start_lines (lines f) ! i + 2 + j)) = el # tx # ty # tz # rest"
    and floats: "pfloat tx = Some x" "pfloat ty = Some y" "pfloat tz = Some z"
    and nan: "isnan x \<or> isnan y \<or> isnan z"
  shows "parse_atom_line pfloat isnan (lines f ! (start_lines (lines f) ! i + 2 + j))
           = Inl (NaNCoordError x y z)
       \<and> (\<exists>e. fst (get_structure pfloat isnan model f) = Inl e)
       \<and> ((\<forall>i'<i. \<exists>arr. parse_model pfloat isnan (lines f) a (i', start_lines (lines f) ! i') = Inr arr)
            \<and> (\<forall>j'<j. \<exists>at. parse_atom_line pfloat isnan
                              (lines f ! (start_lines (lines f) ! i + 2 + j')) = Inr at)
            \<longrightarrow> fst (get_structure pfloat isnan model f) = Inl (NaNCoordError x y z))
       \<and> (\<forall>(g :: 'c xyzfile) md r g' at.
             atom_numbers g = None \<and> mol_names g = None \<and> structures g = None
             \<and> get_structure pfloat isnan md g = (Inr r, g') \<and> at \<in> set (struct_atoms r)
             \<longrightarrow> \<not> isnan (fst (coord at)) \<and> \<not> isnan (fst (snd (coord at)))
                  \<and> \<not> isnan (snd (snd (coord at))))"
proof -
  let ?ls = "lines f"
  let ?sl = "start_lines ?ls"
  let ?g = "parse_model pfloat isnan ?ls a"
  let ?l = "?ls ! (?sl ! i + 2 + j)"
  have line: "parse_atom_line pfloat isnan ?l = Inl (NaNCoordError x y z)"
    using parse_atom_line_fields [OF fields floats, of isnan] nan by simp
  have la: "length a = length ?sl" using map_result_length [OF counts] .
  have n0: "0 \<le> a ! i" using header_counts_nonneg [OF counts i] .
  have ix: "py_index a (int i) = Some (a ! i)" using i la by (simp add: py_index_nth)
  note pm = parse_model_nan_line [OF ix n0 span j line]
  have ei: "i < length (enumerate 0 ?sl)" using i by simp
  have nth: "\<And>k. k < length ?sl \<Longrightarrow> enumerate 0 ?sl ! k = (k, ?sl ! k)"
    by (simp add: nth_enumerate_eq)
  have gs: "fst (get_structure pfloat isnan model f) =
      (case map_result ?g (enumerate 0 ?sl) of
         Inl e \<Rightarrow> Inl e
       | Inr arrays \<Rightarrow> (case stack arrays of Inl e \<Rightarrow> Inl e
                         | Inr st \<Rightarrow> select_structure model st))"
    using assms(1-4) counts names
    by (simp add: get_structure_fresh split: sum.splits)
  from pm obtain e' where "?g (i, ?sl ! i) = Inl e'" by (elim conjE exE)
  then have "?g (enumerate 0 ?sl ! i) = Inl e'" using nth [OF i] by simp
  from map_result_some_error [of i "enumerate 0 ?sl" ?g, OF ei this] obtain e'' where
    "map_result ?g (enumerate 0 ?sl) = Inl e''" by (elim exE)
  then have 1: "\<exists>e. fst (get_structure pfloat isnan model f) = Inl e"
    unfolding gs by simp
  have 2: "fst (get_structure pfloat isnan model f) = Inl (NaNCoordError x y z)"
    if earlier: "(\<forall>i'<i. \<exists>arr. ?g (i', ?sl ! i') = Inr arr)
            \<and> (\<forall>j'<j. \<exists>at. parse_atom_line pfloat isnan (?ls ! (?sl ! i + 2 + j')) = Inr at)"
  proof -
    from pm earlier have "?g (i, ?sl ! i) = Inl (NaNCoordError x y z)" by simp
    then have b: "?g (enumerate 0 ?sl ! i) = Inl (NaNCoordError x y z)" using nth [OF i] by simp
    have "\<forall>i'<i. \<exists>arr. ?g (enumerate 0 ?sl ! i') = Inr arr"
      using earlier i nth by simp
    from map_result_first_error [of i "enumerate 0 ?sl" ?g, OF ei b this] show ?thesis
      unfolding gs by simp
  qed
  have 3: "\<forall>(g :: 'c xyzfile) md r g' at.
             atom_numbers g = None \<and> mol_names g = None \<and> structures g = None
             \<and> get_structure pfloat isnan md g = (Inr r, g') \<and> at \<in> set (struct_atoms r)
             \<longrightarrow> \<not> isnan (fst (coord at)) \<and> \<not> isnan (fst (snd (coord at)))
                  \<and> \<not> isnan (snd (snd (coord at)))"
    using no_nan_returned [of _ pfloat isnan] by (intro allI impI) (elim conjE)
  from line 1 2 3 show ?thesis by (intro conjI impI)
qed

theorem nan_coordinate_error_witness:
  "fst (get_structure float_of_str np_isnan None (file_of_lines [''1'', ''A'', ''C 0 0 nan'']))
     = Inl (NaNCoordError (Finite 0) (Finite 0) NaN)"
proof -
  let ?ls = "[''1'', ''A'', ''C 0 0 nan'']"
  let ?f = "file_of_lines ?ls :: pyfloat xyzfile"
  have 1: "atom_numbers ?f = None" "mol_names ?f = None" "structures ?f = None"
    "2 < length (lines ?f)" by simp_all
  have 2: "map_result (read_count (lines ?f)) (start_lines (lines ?f))
      = (Inr [1] :: pyfloat error + int list)"
    by (simp add: ex5_start ex5_counts del: map_result.simps)
  have 3: "map_result (read_name (lines ?f)) (start_lines (lines ?f))
      = (Inr [''A''] :: pyfloat error + string list)"
    by (simp add: ex5_start ex5_names del: map_result.simps)
  have 4: "0 < length (start_lines (lines ?f))" by (simp add: ex5_start)
  have 5: "start_lines (lines ?f) ! 0 + 2 + nat ([1] ! 0) \<le> length (lines ?f)"
    by (simp add: ex5_start)
  have 6: "0 < nat ([1 :: int] ! 0)" by simp
  have 7: "line_fields (lines ?f ! (start_lines (lines ?f) ! 0 + 2 + 0))
      = ''C'' # ''0'' # ''0'' # ''nan'' # []"
    by (simp add: ex5_start ex5_fields)
  have 8: "np_isnan (Finite 0) \<or> np_isnan (Finite 0) \<or> np_isnan NaN"
    by (simp add: np_isnan_def)
  from nan_coordinate_error [OF 1 2 3 4 5 6 7 ex5_floats(2) ex5_floats(2) ex5_floats(1) 8,
      of None]
  show ?thesis by simp
qed

section \<open>The buffer written for a stack\<close>

text \<open>
  The two loops of \<open>set_structure\<close> overwrite a stretch of the buffer line by line: the
  lines before and after it stay as they are.
\<close>

lemma write_atoms_fill:
  "length pre = off \<Longrightarrow> length mid = length as \<Longrightarrow>
     write_atoms ln off as (pre @ mid @ post) = (True, pre @ map ln as @ post)"
proof (induction as arbitrary: off pre mid)
  case Nil
  then show ?case by simp
next
  case (Cons a as)
  then obtain x mid' where mid: "mid = x # mid'" by (cases mid) auto
  have upd: "(pre @ mid @ post)[off := ln a] = (pre @ [ln a]) @ mid' @ post"
    using Cons.prems(1) mid by (simp add: list_update_append)
  have "write_atoms ln (Suc off) as ((pre @ [ln a]) @ mid' @ post)
      = (True, (pre @ [ln a]) @ map ln as @ post)"
    using Cons.prems mid by (intro Cons.IH) simp_all
  with upd Cons.prems(1) mid show ?case by simp
qed

lemma write_models_fill:
  assumes "\<forall>m \<in> set ms. length m = n0"
  shows "length pre = i * (n0 + 2) \<Longrightarrow> length mid = length ms * (n0 + 2) \<Longrightarrow>
     write_models ln n0 (n0 + 2) i ms (pre @ mid @ post)
       = (True, pre @ concat (map (\<lambda>(k, m). str_nat n0 # ('' '' @ str_nat k) # map ln m)
                                 (enumerate i ms)) @ post)"
  using assms
proof (induction ms arbitrary: i pre mid)
  case Nil
  then show ?case by simp
next
  case (Cons m ms)
  let ?npm = "n0 + 2"
  from Cons.prems have lm: "length m = n0" by simp
  from Cons.prems(2) have len: "length mid = n0 + 2 + length ms * ?npm" by simp
  then obtain h1 r1 where r1: "mid = h1 # r1" by (cases mid) auto
  with len obtain h2 r2 where r2: "r1 = h2 # r2" by (cases r1) auto
  define body where "body = take n0 r2"
  define mid' where "mid' = drop n0 r2"
  have split: "mid = h1 # h2 # body @ mid'" by (simp add: r1 r2 body_def mid'_def)
  have lb: "length body = n0" and lm': "length mid' = length ms * ?npm"
    using len r1 r2 by (simp_all add: body_def mid'_def)
  let ?c = "str_nat n0"
  let ?nm = "'' '' @ str_nat i"
  have u1: "(pre @ mid @ post)[i * ?npm := ?c] = pre @ ?c # h2 # body @ mid' @ post"
    using Cons.prems(1) split by (simp add: list_update_append)
  have u2: "(pre @ ?c # h2 # body @ mid' @ post)[i * ?npm + 1 := ?nm]
      = (pre @ [?c, ?nm]) @ body @ (mid' @ post)"
    using Cons.prems(1) by (simp add: list_update_append)
  have wa: "write_atoms ln (i * ?npm + 2) m ((pre @ [?c, ?nm]) @ body @ (mid' @ post))
      = (True, (pre @ [?c, ?nm]) @ map ln m @ (mid' @ post))"
    using Cons.prems(1) lm lb by (intro write_atoms_fill) simp_all
  have ih: "write_models ln n0 ?npm (Suc i) ms ((pre @ ?c # ?nm # map ln m) @ mid' @ post)
      = (True, (pre @ ?c # ?nm # map ln m)
           @ concat (map (\<lambda>(k, m). str_nat n0 # ('' '' @ str_nat k) # map ln m)
                       (enumerate (Suc i) ms)) @ post)"
    using Cons.prems lm lm' by (intro Cons.IH) simp_all
  have l1: "i * ?npm < length (pre @ mid @ post)"
    and l2: "i * ?npm + 1 < length (pre @ ?c # h2 # body @ mid' @ post)"
    using Cons.prems(1) split by simp_all
  show ?case
    using l1 l2 ih wa
    by (simp only: write_models.simps u1 u2 Let_def if_True prod.case)
       (simp add: split)
qed

lemma length_concat_blocks:
  "\<forall>x \<in> set xs. length (g x) = c \<Longrightarrow> length (concat (map g xs)) = length xs * c"
  by (induction xs) simp_all

text \<open>
  Claim C10. For a stack of \<open>k\<close> models with \<open>n\<close> atoms each written into a new
  \<open>XYZFile\<close>, the buffer is the \<open>k\<close> model blocks (count line, name line holding the
  number of the model, \<open>n\<close> atom lines) followed by two empty lines: the blocks take the
  first \<open>k * (n + 2)\<close> lines, and the buffer has \<open>k * (n + 2) + 2\<close> lines. The call
  returns without error when the stack has a model.
\<close>

theorem set_structure_stack_lines:
  assumes "\<forall>m \<in> set ms. length m = n"
  shows "lines (snd (set_structure fmt6 (AtomArrayStack ms) new_xyzfile))
           = concat (map (\<lambda>(i, m). str_nat n # ('' '' @ str_nat i)
                                     # map (atom_line (py_rjust 11) fmt6) m)
                         (enumerate 0 ms)) @ [[], []]
       \<and> length (concat (map (\<lambda>(i, m). str_nat n # ('' '' @ str_nat i)
                                     # map (atom_line (py_rjust 11) fmt6) m)
                         (enumerate 0 ms))) = length ms * (n + 2)
       \<and> length (lines (snd (set_structure fmt6 (AtomArrayStack ms) new_xyzfile)))
           = length ms * (n + 2) + 2
       \<and> (ms \<noteq> [] \<longrightarrow> fst (set_structure fmt6 (AtomArrayStack ms) new_xyzfile) = Inr ())"
proof -
  let ?ln = "atom_line (py_rjust 11) fmt6"
  let ?blk = "\<lambda>(i, m). str_nat n # ('' '' @ str_nat i) # map ?ln m"
  let ?blocks = "concat (map ?blk (enumerate 0 ms))"
  have lb: "length ?blocks = length ms * (n + 2)"
  proof -
    have "\<forall>x \<in> set (enumerate 0 ms). length (?blk x) = n + 2"
      using assms by (auto simp: in_set_enumerate_eq)
    from length_concat_blocks [OF this] show ?thesis by simp
  qed
  have res: "fst (set_structure fmt6 (AtomArrayStack ms) new_xyzfile) = (if ms = [] then Inl IndexError else Inr ())
      \<and> lines (snd (set_structure fmt6 (AtomArrayStack ms) new_xyzfile)) = ?blocks @ [[], []]"
  proof (cases ms)
    case Nil
    then show ?thesis
      by (simp add: set_structure_def py_index_def new_xyzfile_def N_HEADER_def numeral_2_eq_2)
  next
    case (Cons m0 rest)
    with assms have n: "length m0 = n" by simp
    have ix: "py_index ms 0 = Some m0" using Cons by (simp add: py_index_def)
    have buf: "lines (new_xyzfile :: 'a xyzfile) @ replicate ((n + 2) * length ms) []
        = [] @ replicate (length ms * (n + 2)) [] @ [[], []]"
    proof -
      have "replicate 2 ([] :: string) @ replicate ((n + 2) * length ms) []
          = replicate ((n + 2) * length ms) [] @ replicate 2 []"
        by (simp only: replicate_add [symmetric] add.commute)
      then show ?thesis
        by (simp add: new_xyzfile_def N_HEADER_def mult.commute numeral_2_eq_2)
    qed
    have wm: "write_models ?ln n (n + 2) 0 ms ([] @ replicate (length ms * (n + 2)) [] @ [[], []])
        = (True, [] @ ?blocks @ [[], []])"
      using assms by (intro write_models_fill) simp_all
    have "set_structure fmt6 (AtomArrayStack ms) (new_xyzfile :: 'a xyzfile)
        = (case write_models ?ln (length m0) (length m0 + 2) 0 ms
                  (lines (new_xyzfile :: 'a xyzfile) @ replicate ((length m0 + 2) * length ms) []) of
             (True, ls2) \<Rightarrow> (Inr (), new_xyzfile\<lparr>lines := ls2\<rparr>)
           | (False, ls2) \<Rightarrow> (Inl IndexError, new_xyzfile\<lparr>lines := ls2\<rparr>))"
      by (simp only: set_structure_def atom_struct.case ix option.case Let_def)
    also have "\<dots> = (Inr (), new_xyzfile\<lparr>lines := [] @ ?blocks @ [[], []]\<rparr>)"
      by (simp only: n buf wm) simp
    finally have "set_structure fmt6 (AtomArrayStack ms) (new_xyzfile :: 'a xyzfile)
        = (Inr (), new_xyzfile\<lparr>lines := [] @ ?blocks @ [[], []]\<rparr>)" .
    moreover have "ms \<noteq> []" using Cons by simp
    ultimately show ?thesis by simp
  qed
  from res lb show ?thesis by simp
qed

theorem set_structure_stack_lines_witness:
  "length (lines (snd (set_structure format_6f
       (AtomArrayStack [[\<lparr>element = ''C'', coord = (Finite 0, Finite 0, Finite 0)\<rparr>],
                        [\<lparr>element = ''C'', coord = (Finite 1000000, Finite 0, Finite 0)\<rparr>]])
       new_xyzfile))) = 8
   \<and> fst (set_structure format_6f
       (AtomArrayStack [[\<lparr>element = ''C'', coord = (Finite 0, Finite 0, Finite 0)\<rparr>],
                        [\<lparr>element = ''C'', coord = (Finite 1000000, Finite 0, Finite 0)\<rparr>]])
       new_xyzfile) = Inr ()"
proof -
  let ?ms = "[[\<lparr>element = ''C'', coord = (Finite 0, Finite 0, Finite 0)\<rparr>],
              [\<lparr>element = ''C'', coord = (Finite 1000000, Finite 0, Finite 0)\<rparr>]]"
  have h: "\<forall>m \<in> set ?ms. length m = 1" by simp
  from set_structure_stack_lines [OF h, of format_6f] show ?thesis by simp
qed

end
